theory Spec2Isabelle
  imports Complex_Main
begin

section \<open>Numbers of the data frame\<close>

text \<open>
  Every cell of the price frame is a numpy float64. The model keeps the four kinds of value the
  program distinguishes: a finite number, the two infinities and NaN (the "undefined" marker of
  a rolling window that is not warmed up yet). Finite numbers are exact reals: rounding and the
  sign of zero are not modelled. Arithmetic and comparisons follow IEEE 754 on the special
  values: NaN is absorbing in arithmetic and every ordered comparison with NaN is false.
\<close>

datatype fl = Fin real | PInf | NInf | NaN

fun is_nan :: "fl \<Rightarrow> bool" where
  "is_nan NaN = True"
| "is_nan _ = False"

fun fl_neg :: "fl \<Rightarrow> fl" where
  "fl_neg (Fin x) = Fin (- x)"
| "fl_neg PInf = NInf"
| "fl_neg NInf = PInf"
| "fl_neg NaN = NaN"

fun fl_abs :: "fl \<Rightarrow> fl" where
  "fl_abs (Fin x) = Fin \<bar>x\<bar>"
| "fl_abs PInf = PInf"
| "fl_abs NInf = PInf"
| "fl_abs NaN = NaN"

fun fl_add :: "fl \<Rightarrow> fl \<Rightarrow> fl" where
  "fl_add NaN _ = NaN"
| "fl_add _ NaN = NaN"
| "fl_add (Fin x) (Fin y) = Fin (x + y)"
| "fl_add PInf NInf = NaN"
| "fl_add NInf PInf = NaN"
| "fl_add PInf _ = PInf"
| "fl_add _ PInf = PInf"
| "fl_add NInf _ = NInf"
| "fl_add _ NInf = NInf"

definition fl_sub :: "fl \<Rightarrow> fl \<Rightarrow> fl" where
  "fl_sub a b = fl_add a (fl_neg b)"

fun fl_mul :: "fl \<Rightarrow> fl \<Rightarrow> fl" where
  "fl_mul NaN _ = NaN"
| "fl_mul _ NaN = NaN"
| "fl_mul (Fin x) (Fin y) = Fin (x * y)"
| "fl_mul (Fin x) PInf = (if x = 0 then NaN else if 0 < x then PInf else NInf)"
| "fl_mul (Fin x) NInf = (if x = 0 then NaN else if 0 < x then NInf else PInf)"
| "fl_mul PInf (Fin y) = (if y = 0 then NaN else if 0 < y then PInf else NInf)"
| "fl_mul NInf (Fin y) = (if y = 0 then NaN else if 0 < y then NInf else PInf)"
| "fl_mul PInf PInf = PInf"
| "fl_mul NInf NInf = PInf"
| "fl_mul PInf NInf = NInf"
| "fl_mul NInf PInf = NInf"

text \<open>
  Division never raises on float64: a finite non-zero number over zero is an infinity, zero
  over zero is NaN, a finite number over an infinity is zero.
\<close>

fun fl_div :: "fl \<Rightarrow> fl \<Rightarrow> fl" where
  "fl_div NaN _ = NaN"
| "fl_div _ NaN = NaN"
| "fl_div (Fin x) (Fin y) =
     (if y \<noteq> 0 then Fin (x / y)
      else if x = 0 then NaN else if 0 < x then PInf else NInf)"
| "fl_div (Fin x) PInf = Fin 0"
| "fl_div (Fin x) NInf = Fin 0"
| "fl_div PInf (Fin y) = (if 0 \<le> y then PInf else NInf)"
| "fl_div NInf (Fin y) = (if 0 \<le> y then NInf else PInf)"
| "fl_div PInf PInf = NaN"
| "fl_div PInf NInf = NaN"
| "fl_div NInf PInf = NaN"
| "fl_div NInf NInf = NaN"

fun fl_lt :: "fl \<Rightarrow> fl \<Rightarrow> bool" where
  "fl_lt NaN _ = False"
| "fl_lt _ NaN = False"
| "fl_lt (Fin x) (Fin y) = (x < y)"
| "fl_lt NInf NInf = False"
| "fl_lt NInf _ = True"
| "fl_lt _ NInf = False"
| "fl_lt PInf _ = False"
| "fl_lt _ PInf = True"

fun fl_le :: "fl \<Rightarrow> fl \<Rightarrow> bool" where
  "fl_le NaN _ = False"
| "fl_le _ NaN = False"
| "fl_le (Fin x) (Fin y) = (x \<le> y)"
| "fl_le NInf _ = True"
| "fl_le _ PInf = True"
| "fl_le PInf _ = False"
| "fl_le _ NInf = False"

definition fl_gt :: "fl \<Rightarrow> fl \<Rightarrow> bool" where
  "fl_gt a b = fl_lt b a"

definition fl_ge :: "fl \<Rightarrow> fl \<Rightarrow> bool" where
  "fl_ge a b = fl_le b a"

text \<open>\<open>np.maximum\<close>: the larger operand, NaN when either is NaN.\<close>

definition fl_maximum :: "fl \<Rightarrow> fl \<Rightarrow> fl" where
  "fl_maximum a b = (if is_nan a \<or> is_nan b then NaN else if fl_lt a b then b else a)"

text \<open>Python's builtin \<open>min(a, b)\<close>: the second argument only when it is strictly smaller.\<close>

definition py_min :: "fl \<Rightarrow> fl \<Rightarrow> fl" where
  "py_min a b = (if fl_lt b a then b else a)"

definition fl_sum :: "fl list \<Rightarrow> fl" where
  "fl_sum xs = foldl fl_add (Fin 0) xs"

definition fl_of_nat :: "nat \<Rightarrow> fl" where
  "fl_of_nat n = Fin (real n)"

section \<open>Series and rolling windows\<close>

type_synonym series = "fl list"

datatype error = KeyError string | ValueError | IndexError

text \<open>\<open>Series.shift()\<close> moves every value one position down and puts NaN first.\<close>

definition shift :: "series \<Rightarrow> series" where
  "shift xs = (if xs = [] then [] else NaN # butlast xs)"

text \<open>\<open>Series.diff()\<close>: the value minus the previous one, NaN at the first position.\<close>

definition diff :: "series \<Rightarrow> series" where
  "diff xs = map2 fl_sub xs (shift xs)"

text \<open>\<open>s.where(cond, other)\<close> keeps a value where the condition holds and puts \<open>other\<close>
  elsewhere (also where the value is NaN, on which the condition is false).\<close>

definition where_series :: "(fl \<Rightarrow> bool) \<Rightarrow> fl \<Rightarrow> series \<Rightarrow> series" where
  "where_series cond other xs = map (\<lambda>v. if cond v then v else other) xs"

text \<open>\<open>s.replace(a, b)\<close> on numbers: every value equal to \<open>a\<close> becomes \<open>b\<close>.\<close>

definition replace :: "fl \<Rightarrow> fl \<Rightarrow> series \<Rightarrow> series" where
  "replace a b xs = map (\<lambda>v. if v = a then b else v) xs"

text \<open>
  \<open>s.rolling(window, min_periods)\<close> checks its arguments when it is created: a negative
  \<open>min_periods\<close>, a \<open>min_periods\<close> above the window and a negative window raise ValueError.
  Without \<open>min_periods\<close> a fixed window needs all of its \<open>window\<close> observations.
  Windows and spans are taken to fit a 64-bit integer: on a larger one the library overflows,
  which the model leaves out.
\<close>

definition rolling :: "int \<Rightarrow> int option \<Rightarrow> error + (nat \<times> nat)" where
  "rolling window min_periods =
     (case min_periods of
        None \<Rightarrow> if window < 0 then Inl ValueError else Inr (nat window, nat window)
      | Some m \<Rightarrow>
          if m < 0 then Inl ValueError
          else if window < m then Inl ValueError
          else Inr (nat window, nat m))"

text \<open>The window that ends at position \<open>i\<close>: the last \<open>w\<close> values up to and including it.\<close>

definition window_at :: "nat \<Rightarrow> series \<Rightarrow> nat \<Rightarrow> series" where
  "window_at w xs i = drop (Suc i - w) (take (Suc i) xs)"

text \<open>
  Before a rolling, expanding or exponentially weighted aggregate runs, pandas turns every
  infinite value of the series into NaN.
\<close>

definition prep_values :: "series \<Rightarrow> series" where
  "prep_values xs = map (\<lambda>v. if v = PInf \<or> v = NInf then NaN else v) xs"

text \<open>
  A rolling aggregate looks at the observations of the window that are not NaN. With fewer of
  them than \<open>min_periods\<close>, or none at all, the result is NaN.
\<close>

definition roll :: "(fl list \<Rightarrow> fl) \<Rightarrow> nat \<Rightarrow> nat \<Rightarrow> series \<Rightarrow> series" where
  "roll agg w minp xs =
     map (\<lambda>i. let obs = filter (\<lambda>v. \<not> is_nan v) (window_at w (prep_values xs) i)
              in if minp \<le> length obs \<and> obs \<noteq> [] then agg obs else NaN)
         [0..<length xs]"

definition mean :: "fl list \<Rightarrow> fl" where
  "mean obs = fl_div (fl_sum obs) (fl_of_nat (length obs))"

definition rolling_mean :: "int \<Rightarrow> int option \<Rightarrow> series \<Rightarrow> error + series" where
  "rolling_mean window min_periods xs =
     (case rolling window min_periods of
        Inl e \<Rightarrow> Inl e
      | Inr (w, minp) \<Rightarrow> Inr (roll mean w minp xs))"

section \<open>TechnicalIndicators.rsi\<close>

text \<open>
  \<open>gain\<close> and \<open>loss\<close> are the two rolling averages of \<open>rsi\<close>, each with
  \<open>min_periods = 1\<close>; \<open>rs\<close> divides the gain by the loss in which every exact zero has
  been replaced by positive infinity.
\<close>

definition rsi_gain :: "series \<Rightarrow> int \<Rightarrow> error + series" where
  "rsi_gain prices window =
     (let delta = diff prices
      in rolling_mean window (Some 1) (where_series (\<lambda>d. fl_gt d (Fin 0)) (Fin 0) delta))"

definition rsi_loss :: "series \<Rightarrow> int \<Rightarrow> error + series" where
  "rsi_loss prices window =
     (let delta = diff prices
      in rolling_mean window (Some 1)
           (map fl_neg (where_series (\<lambda>d. fl_lt d (Fin 0)) (Fin 0) delta)))"

definition rsi :: "series \<Rightarrow> int \<Rightarrow> error + series" where
  "rsi prices window =
     (case rsi_gain prices window of
        Inl e \<Rightarrow> Inl e
      | Inr gain \<Rightarrow>
          (case rsi_loss prices window of
             Inl e \<Rightarrow> Inl e
           | Inr loss \<Rightarrow>
               let rs = map2 fl_div gain (replace (Fin 0) PInf loss);
                   rsi = map (\<lambda>r. fl_sub (Fin 100) (fl_div (Fin 100) (fl_add (Fin 1) r))) rs
               in Inr rsi))"

section \<open>The other indicators\<close>

text \<open>
  \<open>s.ewm(span).mean()\<close> with pandas' defaults (\<open>adjust=True\<close>, \<open>ignore_na=False\<close>): a span
  below 1 raises ValueError; otherwise \<open>alpha = 2 / (span + 1)\<close> and the running weighted
  average is renormalised by the weight consumed so far. The state of the loop is the average
  and the accumulated weight of the old observations.
\<close>

fun ewm_step :: "real \<Rightarrow> fl \<times> real \<Rightarrow> fl \<Rightarrow> fl \<times> real" where
  "ewm_step alpha (weighted, old_wt) cur =
     (if \<not> is_nan weighted then
        (if \<not> is_nan cur then
           (let old_wt' = old_wt * (1 - alpha);
                weighted' =
                  (if weighted \<noteq> cur
                   then fl_div (fl_add (fl_mul (Fin old_wt') weighted) cur) (Fin (old_wt' + 1))
                   else weighted)
            in (weighted', old_wt' + 1))
         else (weighted, old_wt * (1 - alpha)))
      else if \<not> is_nan cur then (cur, old_wt)
      else (weighted, old_wt))"

fun ewm_loop :: "real \<Rightarrow> fl \<times> real \<Rightarrow> series \<Rightarrow> series" where
  "ewm_loop alpha st [] = []"
| "ewm_loop alpha st (cur # rest) =
     (let st' = ewm_step alpha st cur in fst st' # ewm_loop alpha st' rest)"

definition ewm_mean :: "int \<Rightarrow> series \<Rightarrow> error + series" where
  "ewm_mean span' xs =
     (if span' < 1 then Inl ValueError
      else Inr (case prep_values xs of
                  [] \<Rightarrow> []
                | x # rest \<Rightarrow> x # ewm_loop (2 / (real_of_int span' + 1)) (x, 1) rest))"

fun fl_sqrt :: "fl \<Rightarrow> fl" where
  "fl_sqrt (Fin x) = (if x < 0 then NaN else Fin (sqrt x))"
| "fl_sqrt PInf = PInf"
| "fl_sqrt NInf = NaN"
| "fl_sqrt NaN = NaN"

text \<open>The sample standard deviation (\<open>ddof = 1\<close>): NaN on fewer than two observations.\<close>

definition std :: "fl list \<Rightarrow> fl" where
  "std obs =
     (if length obs < 2 then NaN
      else let m = mean obs;
               ss = fl_sum (map (\<lambda>v. fl_mul (fl_sub v m) (fl_sub v m)) obs)
           in fl_sqrt (fl_div ss (fl_of_nat (length obs - 1))))"

definition min_list :: "fl list \<Rightarrow> fl" where
  "min_list obs = (case obs of [] \<Rightarrow> NaN | z # zs \<Rightarrow> foldl (\<lambda>a b. if fl_lt b a then b else a) z zs)"

definition max_list :: "fl list \<Rightarrow> fl" where
  "max_list obs = (case obs of [] \<Rightarrow> NaN | z # zs \<Rightarrow> foldl (\<lambda>a b. if fl_lt a b then b else a) z zs)"

text \<open>The function that \<open>cci\<close> hands to \<open>rolling(...).apply\<close>: the mean absolute deviation.\<close>

definition mean_abs_dev :: "fl list \<Rightarrow> fl" where
  "mean_abs_dev x = mean (map (\<lambda>v. fl_abs (fl_sub v (mean x))) x)"

definition rolling_agg :: "(fl list \<Rightarrow> fl) \<Rightarrow> int \<Rightarrow> series \<Rightarrow> error + series" where
  "rolling_agg agg window xs =
     (case rolling window None of
        Inl e \<Rightarrow> Inl e
      | Inr (w, minp) \<Rightarrow> Inr (roll agg w minp xs))"

definition bind_err :: "error + 'a \<Rightarrow> ('a \<Rightarrow> error + 'b) \<Rightarrow> error + 'b" where
  "bind_err m k = (case m of Inl e \<Rightarrow> Inl e | Inr x \<Rightarrow> k x)"

definition macd :: "series \<Rightarrow> int \<Rightarrow> int \<Rightarrow> int \<Rightarrow> error + (series \<times> series \<times> series)" where
  "macd prices fast slow signal =
     bind_err (ewm_mean fast prices) (\<lambda>exp1.
     bind_err (ewm_mean slow prices) (\<lambda>exp2.
       let macd_line = map2 fl_sub exp1 exp2
       in bind_err (ewm_mean signal macd_line) (\<lambda>signal_line.
            let histogram = map2 fl_sub macd_line signal_line
            in Inr (macd_line, signal_line, histogram))))"

definition bollinger_bands ::
  "series \<Rightarrow> int \<Rightarrow> real \<Rightarrow> error + (series \<times> series \<times> series)" where
  "bollinger_bands prices window std_dev =
     bind_err (rolling_mean window None prices) (\<lambda>sma.
     bind_err (rolling_agg std window prices) (\<lambda>sd.
       let upper_band = map2 fl_add sma (map (\<lambda>v. fl_mul v (Fin std_dev)) sd);
           lower_band = map2 fl_sub sma (map (\<lambda>v. fl_mul v (Fin std_dev)) sd)
       in Inr (upper_band, sma, lower_band)))"

definition stochastic ::
  "series \<Rightarrow> series \<Rightarrow> series \<Rightarrow> int \<Rightarrow> int \<Rightarrow> error + (series \<times> series)" where
  "stochastic high low close k_window d_window =
     bind_err (rolling_agg min_list k_window low) (\<lambda>lowest_low.
     bind_err (rolling_agg max_list k_window high) (\<lambda>highest_high.
       let k_percent =
             map2 fl_div (map (fl_mul (Fin 100)) (map2 fl_sub close lowest_low))
                         (map2 fl_sub highest_high lowest_low)
       in bind_err (rolling_mean d_window None k_percent) (\<lambda>d_percent.
            Inr (k_percent, d_percent))))"

definition williams_r :: "series \<Rightarrow> series \<Rightarrow> series \<Rightarrow> int \<Rightarrow> error + series" where
  "williams_r high low close window =
     bind_err (rolling_agg max_list window high) (\<lambda>highest_high.
     bind_err (rolling_agg min_list window low) (\<lambda>lowest_low.
       Inr (map2 fl_div (map (fl_mul (Fin (- 100))) (map2 fl_sub highest_high close))
                        (map2 fl_sub highest_high lowest_low))))"

definition atr :: "series \<Rightarrow> series \<Rightarrow> series \<Rightarrow> int \<Rightarrow> error + series" where
  "atr high low close window =
     (let high_low = map2 fl_sub high low;
          high_close = map fl_abs (map2 fl_sub high (shift close));
          low_close = map fl_abs (map2 fl_sub low (shift close));
          true_range = map2 fl_maximum high_low (map2 fl_maximum high_close low_close)
      in rolling_mean window None true_range)"

definition cci :: "series \<Rightarrow> series \<Rightarrow> series \<Rightarrow> int \<Rightarrow> error + series" where
  "cci high low close window =
     (let typical_price = map (\<lambda>v. fl_div v (Fin 3)) (map2 fl_add (map2 fl_add high low) close)
      in bind_err (rolling_mean window None typical_price) (\<lambda>sma.
         bind_err (rolling_agg mean_abs_dev window typical_price) (\<lambda>mean_deviation.
           Inr (map2 fl_div (map2 fl_sub typical_price sma)
                            (map (fl_mul (Fin 0.015)) mean_deviation)))))"

section \<open>The analyzer: configuration and data frame\<close>

record config =
  rsi_window :: int
  rsi_overbought :: real
  rsi_oversold :: real
  macd_fast :: int
  macd_slow :: int
  macd_signal :: int
  bb_window :: int
  bb_std :: real
  stoch_k :: int
  stoch_d :: int
  min_signal_strength :: int
  risk_per_trade :: real

text \<open>The configuration that \<open>__init__\<close> installs. The constructor takes no configuration
  argument and checks none of these values.\<close>

definition default_config :: config where
  "default_config =
     \<lparr> rsi_window = 14, rsi_overbought = 70, rsi_oversold = 30,
       macd_fast = 12, macd_slow = 26, macd_signal = 9,
       bb_window = 20, bb_std = 2.0, stoch_k = 14, stoch_d = 3,
       min_signal_strength = 2, risk_per_trade = 0.02 \<rparr>"

text \<open>
  \<open>self.data\<close>: a number of rows and named columns, each column holding one value per row.
  Reading a column that is not there raises KeyError; assigning a column adds or replaces it.
\<close>

record frame =
  nrows :: nat
  cols :: "string \<rightharpoonup> series"

definition getcol :: "frame \<Rightarrow> string \<Rightarrow> error + series" where
  "getcol f c = (case cols f c of None \<Rightarrow> Inl (KeyError c) | Some xs \<Rightarrow> Inr xs)"

definition setcol :: "string \<Rightarrow> series \<Rightarrow> frame \<Rightarrow> frame" where
  "setcol c xs f = f\<lparr>cols := (cols f)(c \<mapsto> xs)\<rparr>"

definition empty :: "frame \<Rightarrow> bool" where
  "empty f = (nrows f = 0 \<or> dom (cols f) = {})"

subsection \<open>calculate_all_indicators\<close>

definition calculate_moving_averages :: "frame \<Rightarrow> error + frame" where
  "calculate_moving_averages f =
     bind_err (getcol f ''Close'') (\<lambda>close.
     bind_err (rolling_mean 10 None close) (\<lambda>sma10.
     bind_err (rolling_mean 20 None close) (\<lambda>sma20.
     bind_err (rolling_mean 50 None close) (\<lambda>sma50.
     bind_err (rolling_mean 200 None close) (\<lambda>sma200.
     bind_err (ewm_mean 12 close) (\<lambda>ema12.
     bind_err (ewm_mean 26 close) (\<lambda>ema26.
     bind_err (ewm_mean 50 close) (\<lambda>ema50.
       Inr (setcol ''EMA_50'' ema50 (setcol ''EMA_26'' ema26 (setcol ''EMA_12'' ema12
           (setcol ''SMA_200'' sma200 (setcol ''SMA_50'' sma50 (setcol ''SMA_20'' sma20
           (setcol ''SMA_10'' sma10 f)))))))))))))))"

definition calculate_rsi :: "config \<Rightarrow> frame \<Rightarrow> error + frame" where
  "calculate_rsi cfg f =
     bind_err (getcol f ''Close'') (\<lambda>close.
     bind_err (rsi close (rsi_window cfg)) (\<lambda>r. Inr (setcol ''RSI'' r f)))"

definition calculate_macd :: "config \<Rightarrow> frame \<Rightarrow> error + frame" where
  "calculate_macd cfg f =
     bind_err (getcol f ''Close'') (\<lambda>close.
     bind_err (macd close (macd_fast cfg) (macd_slow cfg) (macd_signal cfg))
       (\<lambda>(macd_line, signal, histogram).
          Inr (setcol ''MACD_Histogram'' histogram (setcol ''MACD_Signal'' signal
              (setcol ''MACD'' macd_line f)))))"

definition calculate_bollinger_bands :: "config \<Rightarrow> frame \<Rightarrow> error + frame" where
  "calculate_bollinger_bands cfg f =
     bind_err (getcol f ''Close'') (\<lambda>close.
     bind_err (bollinger_bands close (bb_window cfg) (bb_std cfg)) (\<lambda>(upper, middle, lower).
       Inr (setcol ''BB_Width''
              (map (\<lambda>v. fl_mul v (Fin 100)) (map2 fl_div (map2 fl_sub upper lower) middle))
           (setcol ''BB_Lower'' lower (setcol ''BB_Middle'' middle
           (setcol ''BB_Upper'' upper f))))))"

definition calculate_stochastic :: "config \<Rightarrow> frame \<Rightarrow> error + frame" where
  "calculate_stochastic cfg f =
     bind_err (getcol f ''High'') (\<lambda>high.
     bind_err (getcol f ''Low'') (\<lambda>low.
     bind_err (getcol f ''Close'') (\<lambda>close.
     bind_err (stochastic high low close (stoch_k cfg) (stoch_d cfg)) (\<lambda>(k_percent, d_percent).
       Inr (setcol ''Stoch_D'' d_percent (setcol ''Stoch_K'' k_percent f))))))"

definition calculate_williams_r :: "frame \<Rightarrow> error + frame" where
  "calculate_williams_r f =
     bind_err (getcol f ''High'') (\<lambda>high.
     bind_err (getcol f ''Low'') (\<lambda>low.
     bind_err (getcol f ''Close'') (\<lambda>close.
     bind_err (williams_r high low close 14) (\<lambda>w. Inr (setcol ''Williams_R'' w f)))))"

definition calculate_atr :: "frame \<Rightarrow> error + frame" where
  "calculate_atr f =
     bind_err (getcol f ''High'') (\<lambda>high.
     bind_err (getcol f ''Low'') (\<lambda>low.
     bind_err (getcol f ''Close'') (\<lambda>close.
     bind_err (atr high low close 14) (\<lambda>a. Inr (setcol ''ATR'' a f)))))"

definition calculate_cci :: "frame \<Rightarrow> error + frame" where
  "calculate_cci f =
     bind_err (getcol f ''High'') (\<lambda>high.
     bind_err (getcol f ''Low'') (\<lambda>low.
     bind_err (getcol f ''Close'') (\<lambda>close.
     bind_err (cci high low close 20) (\<lambda>c. Inr (setcol ''CCI'' c f)))))"

text \<open>
  The indicator steps run in the order of the source. A step either raises before it assigns
  any column or completes; an exception leaves in \<open>self.data\<close> the columns of the steps
  before it, and \<open>calculate_all_indicators\<close> logs it and raises it again. The result is the
  exception, if any, and the frame the analyzer holds afterwards.
\<close>

fun run_steps :: "(frame \<Rightarrow> error + frame) list \<Rightarrow> frame \<Rightarrow> error option \<times> frame" where
  "run_steps [] f = (None, f)"
| "run_steps (s # ss) f = (case s f of Inl e \<Rightarrow> (Some e, f) | Inr f' \<Rightarrow> run_steps ss f')"

definition calculate_all_indicators :: "config \<Rightarrow> frame \<Rightarrow> error option \<times> frame" where
  "calculate_all_indicators cfg f =
     run_steps
       [calculate_moving_averages, calculate_rsi cfg, calculate_macd cfg,
        calculate_bollinger_bands cfg, calculate_stochastic cfg,
        calculate_williams_r, calculate_atr, calculate_cci] f"

section \<open>Trading signals\<close>

datatype SignalType = BUY | SELL | HOLD

datatype SignalStrength = WEAK | MODERATE | STRONG

text \<open>A signal's \<open>date\<close> is the index label of its row; the model uses the row's position.\<close>

record TradingSignal =
  date :: nat
  signal_type :: SignalType
  strength :: SignalStrength
  price :: fl
  indicators :: "(string \<times> fl) list"
  reasons :: "string list"
  confidence :: real

type_synonym row = "string \<rightharpoonup> fl"

text \<open>\<open>self.data.iloc[i]\<close>: the row at position \<open>i\<close>, one cell per column.\<close>

definition row_at :: "frame \<Rightarrow> nat \<Rightarrow> row" where
  "row_at f i = (\<lambda>c. map_option (\<lambda>xs. xs ! i) (cols f c))"

definition iloc :: "frame \<Rightarrow> nat \<Rightarrow> error + row" where
  "iloc f i = (if i < nrows f then Inr (row_at f i) else Inl IndexError)"

text \<open>The cell of a column that has been found present.\<close>

definition val :: "row \<Rightarrow> string \<Rightarrow> fl" where
  "val r c = (case r c of Some v \<Rightarrow> v | None \<Rightarrow> NaN)"

subsection \<open>The rules\<close>

text \<open>
  Each rule of the scan is an \<open>if\<close>/\<open>elif\<close> pair on cells of the current and the previous
  row. It yields what it adds to \<open>signal_score\<close> and what it appends to \<open>reasons\<close>.
\<close>

definition rsi_rule :: "config \<Rightarrow> fl \<Rightarrow> int \<times> string list" where
  "rsi_rule cfg cur_rsi =
     (if fl_lt cur_rsi (Fin (rsi_oversold cfg)) then (2, [''RSI Oversold''])
      else if fl_gt cur_rsi (Fin (rsi_overbought cfg)) then (- 2, [''RSI Overbought''])
      else (0, []))"

definition macd_rule :: "fl \<Rightarrow> fl \<Rightarrow> fl \<Rightarrow> fl \<Rightarrow> int \<times> string list" where
  "macd_rule cur_macd cur_signal prev_macd prev_signal =
     (if fl_gt cur_macd cur_signal \<and> fl_le prev_macd prev_signal
      then (3, [''MACD Bullish Crossover''])
      else if fl_lt cur_macd cur_signal \<and> fl_ge prev_macd prev_signal
      then (- 3, [''MACD Bearish Crossover''])
      else (0, []))"

definition bb_rule :: "fl \<Rightarrow> int \<times> string list" where
  "bb_rule bb_position =
     (if fl_lt bb_position (Fin 0.1) then (2, [''Below BB Lower Band''])
      else if fl_gt bb_position (Fin 0.9) then (- 2, [''Above BB Upper Band''])
      else (0, []))"

definition stoch_rule :: "fl \<Rightarrow> fl \<Rightarrow> fl \<Rightarrow> fl \<Rightarrow> int \<times> string list" where
  "stoch_rule cur_k cur_d prev_k prev_d =
     (if fl_lt cur_k (Fin 20) \<and> fl_lt cur_d (Fin 20) \<and> fl_gt cur_k cur_d \<and> fl_le prev_k prev_d
      then (2, [''Stochastic Bullish Crossover''])
      else if fl_gt cur_k (Fin 80) \<and> fl_gt cur_d (Fin 80) \<and> fl_lt cur_k cur_d \<and> fl_ge prev_k prev_d
      then (- 2, [''Stochastic Bearish Crossover''])
      else (0, []))"

definition williams_rule :: "fl \<Rightarrow> int \<times> string list" where
  "williams_rule cur_w =
     (if fl_lt cur_w (Fin (- 80)) then (1, [''Williams %R Oversold''])
      else if fl_gt cur_w (Fin (- 20)) then (- 1, [''Williams %R Overbought''])
      else (0, []))"

definition cci_rule :: "fl \<Rightarrow> int \<times> string list" where
  "cci_rule cur_cci =
     (if fl_lt cur_cci (Fin (- 100)) then (1, [''CCI Oversold''])
      else if fl_gt cur_cci (Fin 100) then (- 1, [''CCI Overbought''])
      else (0, []))"

definition sma20_rule :: "fl \<Rightarrow> fl \<Rightarrow> fl \<Rightarrow> fl \<Rightarrow> int \<times> string list" where
  "sma20_rule cur_close cur_sma20 prev_close prev_sma20 =
     (if fl_gt cur_close cur_sma20 \<and> fl_le prev_close prev_sma20
      then (1, [''Price Above SMA20''])
      else if fl_lt cur_close cur_sma20 \<and> fl_ge prev_close prev_sma20
      then (- 1, [''Price Below SMA20''])
      else (0, []))"

definition cross_rule :: "fl \<Rightarrow> fl \<Rightarrow> fl \<Rightarrow> fl \<Rightarrow> int \<times> string list" where
  "cross_rule cur_sma50 cur_sma200 prev_sma50 prev_sma200 =
     (if fl_gt cur_sma50 cur_sma200 \<and> fl_le prev_sma50 prev_sma200
      then (4, [''Golden Cross''])
      else if fl_lt cur_sma50 cur_sma200 \<and> fl_ge prev_sma50 prev_sma200
      then (- 4, [''Death Cross''])
      else (0, []))"

text \<open>The rules run in order, each adding to the score and appending to the reasons.\<close>

definition accumulate :: "(int \<times> string list) list \<Rightarrow> int \<times> string list" where
  "accumulate rules = foldl (\<lambda>(score, rs) (d, r). (score + d, rs @ r)) (0, []) rules"

subsection \<open>One step of the scan\<close>

text \<open>
  The last block of the loop body: a signal is built when the absolute score reaches
  \<open>min_signal_strength\<close>, and nothing is appended otherwise.
\<close>

definition emit ::
  "config \<Rightarrow> nat \<Rightarrow> fl \<Rightarrow> (string \<times> fl) list \<Rightarrow> int \<Rightarrow> string list \<Rightarrow> TradingSignal option" where
  "emit cfg i close indicators_dict signal_score rs =
     (if min_signal_strength cfg \<le> \<bar>signal_score\<bar> then
        (let sig_type = (if 0 < signal_score then BUY else SELL);
             strength_value = real_of_int (min \<bar>signal_score\<bar> 6) / 2;
             sig_strength =
               (if strength_value \<le> 1.5 then WEAK
                else if strength_value \<le> 2.5 then MODERATE
                else STRONG);
             conf = min (real_of_int \<bar>signal_score\<bar> / 8.0) 1.0
         in Some \<lparr> date = i, signal_type = sig_type, strength = sig_strength, price = close,
                   indicators = indicators_dict, reasons = rs, confidence = conf \<rparr>)
      else None)"

text \<open>
  A row read at a column the frame does not have raises KeyError. The loop body reads its
  columns in a fixed order; only \<open>Stoch_D\<close> sits behind a short-circuit, and is read when
  \<open>Stoch_K\<close> is below 20 or above 80. The previous row has the columns of the current one.
\<close>

definition stoch_d_read :: "row \<Rightarrow> bool" where
  "stoch_d_read current =
     (fl_lt (val current ''Stoch_K'') (Fin 20) \<or> fl_gt (val current ''Stoch_K'') (Fin 80))"

definition missing_column :: "row \<Rightarrow> string option" where
  "missing_column current =
     find (\<lambda>c. current c = None)
       ([''RSI'', ''MACD'', ''MACD_Signal'', ''Close'', ''BB_Lower'', ''BB_Upper'', ''Stoch_K'',
         ''Williams_R'', ''CCI'']
        @ (if stoch_d_read current then [''Stoch_D''] else [])
        @ [''SMA_20'', ''SMA_50'', ''SMA_200''])"

definition bb_position_of :: "row \<Rightarrow> fl" where
  "bb_position_of current =
     fl_div (fl_sub (val current ''Close'') (val current ''BB_Lower''))
            (fl_sub (val current ''BB_Upper'') (val current ''BB_Lower''))"

definition rule_results :: "config \<Rightarrow> row \<Rightarrow> row \<Rightarrow> (int \<times> string list) list" where
  "rule_results cfg current previous =
     [rsi_rule cfg (val current ''RSI''),
      macd_rule (val current ''MACD'') (val current ''MACD_Signal'')
                (val previous ''MACD'') (val previous ''MACD_Signal''),
      bb_rule (bb_position_of current),
      stoch_rule (val current ''Stoch_K'') (val current ''Stoch_D'')
                 (val previous ''Stoch_K'') (val previous ''Stoch_D''),
      williams_rule (val current ''Williams_R''),
      cci_rule (val current ''CCI''),
      sma20_rule (val current ''Close'') (val current ''SMA_20'')
                 (val previous ''Close'') (val previous ''SMA_20''),
      cross_rule (val current ''SMA_50'') (val current ''SMA_200'')
                 (val previous ''SMA_50'') (val previous ''SMA_200'')]"

definition signal_score_of :: "config \<Rightarrow> row \<Rightarrow> row \<Rightarrow> int" where
  "signal_score_of cfg current previous = fst (accumulate (rule_results cfg current previous))"

definition reasons_of :: "config \<Rightarrow> row \<Rightarrow> row \<Rightarrow> string list" where
  "reasons_of cfg current previous = snd (accumulate (rule_results cfg current previous))"

definition indicators_dict_of :: "row \<Rightarrow> (string \<times> fl) list" where
  "indicators_dict_of current =
     [(''RSI'', val current ''RSI''), (''MACD'', val current ''MACD''),
      (''MACD_Signal'', val current ''MACD_Signal''),
      (''BB_Position'', bb_position_of current),
      (''Stoch_K'', val current ''Stoch_K''), (''Williams_R'', val current ''Williams_R''),
      (''CCI'', val current ''CCI'')]"

definition step :: "config \<Rightarrow> nat \<Rightarrow> row \<Rightarrow> row \<Rightarrow> error + TradingSignal option" where
  "step cfg i current previous =
     (case missing_column current of
        Some c \<Rightarrow> Inl (KeyError c)
      | None \<Rightarrow>
          Inr (emit cfg i (val current ''Close'') (indicators_dict_of current)
                 (signal_score_of cfg current previous) (reasons_of cfg current previous)))"

subsection \<open>generate_advanced_signals\<close>

text \<open>The loop \<open>for i in range(50, len(self.data))\<close>; an exception in a step ends it.\<close>

definition scan_positions :: "frame \<Rightarrow> nat list" where
  "scan_positions f = [50..<nrows f]"

fun scan :: "config \<Rightarrow> frame \<Rightarrow> nat list \<Rightarrow> error + TradingSignal list" where
  "scan cfg f [] = Inr []"
| "scan cfg f (i # rest) =
     (case iloc f i of
        Inl e \<Rightarrow> Inl e
      | Inr current \<Rightarrow>
          (case iloc f (i - 1) of
             Inl e \<Rightarrow> Inl e
           | Inr previous \<Rightarrow>
               (case step cfg i current previous of
                  Inl e \<Rightarrow> Inl e
                | Inr s \<Rightarrow>
                    (case scan cfg f rest of
                       Inl e \<Rightarrow> Inl e
                     | Inr signals \<Rightarrow>
                         Inr (case s of None \<Rightarrow> signals | Some t \<Rightarrow> t # signals)))))"

definition generate_advanced_signals :: "config \<Rightarrow> frame \<Rightarrow> error + TradingSignal list" where
  "generate_advanced_signals cfg f = scan cfg f (scan_positions f)"

text \<open>
  Names for what the loop body computes at position \<open>i\<close> of a frame: the accumulated score,
  the signal it builds from the score, the two long moving averages, and the pair that the
  Golden Cross / Death Cross rule contributes.
\<close>

definition score_at :: "config \<Rightarrow> frame \<Rightarrow> nat \<Rightarrow> int" where
  "score_at cfg f i = signal_score_of cfg (row_at f i) (row_at f (i - 1))"

definition signal_at :: "config \<Rightarrow> frame \<Rightarrow> nat \<Rightarrow> TradingSignal option" where
  "signal_at cfg f i =
     emit cfg i (val (row_at f i) ''Close'') (indicators_dict_of (row_at f i))
       (score_at cfg f i) (reasons_of cfg (row_at f i) (row_at f (i - 1)))"

definition sma50_at :: "frame \<Rightarrow> nat \<Rightarrow> fl" where
  "sma50_at f i = val (row_at f i) ''SMA_50''"

definition sma200_at :: "frame \<Rightarrow> nat \<Rightarrow> fl" where
  "sma200_at f i = val (row_at f i) ''SMA_200''"

definition cross_at :: "frame \<Rightarrow> nat \<Rightarrow> int \<times> string list" where
  "cross_at f i =
     cross_rule (sma50_at f i) (sma200_at f i) (sma50_at f (i - 1)) (sma200_at f (i - 1))"

section \<open>Risk management\<close>

record RiskMetrics =
  stop_loss :: fl
  take_profit :: fl
  risk_reward_ratio :: fl
  position_size :: fl
  max_drawdown :: fl
  volatility :: fl

text \<open>
  \<open>RiskManager.calculate_position_size\<close>. The analyzer, its only caller, passes a float64
  \<open>stop_loss_pct\<close>, so a zero stop distance divides to an infinity or NaN; this is what the
  model does. Called directly with a plain Python float 0.0 the division raises
  ZeroDivisionError instead, which the model leaves out.
\<close>

definition calculate_position_size :: "fl \<Rightarrow> fl \<Rightarrow> fl \<Rightarrow> fl" where
  "calculate_position_size account_balance risk stop_loss_pct =
     (let risk_amount = fl_mul account_balance risk;
          size = fl_div risk_amount stop_loss_pct
      in py_min size (fl_mul account_balance (Fin 0.1)))"

text \<open>\<open>prices.expanding().max()\<close>: the largest observation so far, NaN while there is none.\<close>

definition expanding_max :: "series \<Rightarrow> series" where
  "expanding_max xs =
     map (\<lambda>i. max_list (filter (\<lambda>v. \<not> is_nan v) (take (Suc i) (prep_values xs))))
         [0..<length xs]"

text \<open>\<open>Series.min()\<close> and \<open>Series.std()\<close> skip NaN; on no observation the result is NaN.\<close>

definition series_min :: "series \<Rightarrow> fl" where
  "series_min xs = min_list (filter (\<lambda>v. \<not> is_nan v) xs)"

definition series_std :: "series \<Rightarrow> fl" where
  "series_std xs = std (filter (\<lambda>v. \<not> is_nan v) xs)"

definition calculate_max_drawdown :: "series \<Rightarrow> fl" where
  "calculate_max_drawdown prices =
     (let peak = expanding_max prices;
          drawdown = map2 fl_div (map2 fl_sub prices peak) peak
      in series_min drawdown)"

text \<open>\<open>s.iloc[-1]\<close>: the last value of a column.\<close>

definition iloc_last :: "series \<Rightarrow> error + fl" where
  "iloc_last xs = (if xs = [] then Inl IndexError else Inr (last xs))"

text \<open>
  \<open>calculate_risk_metrics\<close>. The ATR is the last cell of the \<open>ATR\<close> column when the frame
  has that column; 2 percent of the price stands in only when the column is absent.
\<close>

definition calculate_risk_metrics :: "config \<Rightarrow> frame \<Rightarrow> fl \<Rightarrow> error + RiskMetrics option" where
  "calculate_risk_metrics cfg f account_balance =
     (if empty f then Inr None
      else
        bind_err (getcol f ''Close'') (\<lambda>close.
        bind_err (iloc_last close) (\<lambda>current_price.
        bind_err (case cols f ''ATR'' of
                    Some a \<Rightarrow> iloc_last a
                  | None \<Rightarrow> Inr (fl_mul current_price (Fin 0.02))) (\<lambda>atr_value.
        bind_err (getcol f ''Returns'') (\<lambda>returns.
          let vol = fl_mul (series_std returns) (fl_sqrt (Fin 252));
              sl = fl_sub current_price (fl_mul (Fin 2) atr_value);
              tp = fl_add current_price (fl_mul (Fin 3) atr_value);
              stop_loss_pct = fl_div (fl_abs (fl_sub current_price sl)) current_price;
              size = calculate_position_size account_balance (Fin (risk_per_trade cfg))
                       stop_loss_pct;
              rr = fl_div (fl_abs (fl_sub tp current_price)) (fl_abs (fl_sub current_price sl));
              mdd = calculate_max_drawdown close
          in Inr (Some \<lparr> stop_loss = sl, take_profit = tp, risk_reward_ratio = rr,
                          position_size = size, max_drawdown = mdd, volatility = vol \<rparr>))))))"

section \<open>Frames and configurations used as concrete inputs\<close>

definition frame_of :: "nat \<Rightarrow> (string \<times> series) list \<Rightarrow> frame" where
  "frame_of n columns = \<lparr> nrows = n, cols = map_of columns \<rparr>"

text \<open>The columns that the loop body of \<open>generate_advanced_signals\<close> reads.\<close>

definition scan_columns :: "string list" where
  "scan_columns =
     [''RSI'', ''MACD'', ''MACD_Signal'', ''Close'', ''BB_Lower'', ''BB_Upper'', ''Stoch_K'',
      ''Williams_R'', ''CCI'', ''Stoch_D'', ''SMA_20'', ''SMA_50'', ''SMA_200'']"

text \<open>
  A frame of 51 rows, given column by column, whose only scanned row (position 50) has an
  oversold RSI and nothing else of note: its score is 2.
\<close>

definition quiet_frame :: frame where
  "quiet_frame = frame_of 51
     [(''Close'', replicate 51 (Fin 5)), (''RSI'', replicate 51 (Fin 20)),
      (''MACD'', replicate 51 (Fin 1)), (''MACD_Signal'', replicate 51 (Fin 1)),
      (''BB_Lower'', replicate 51 (Fin 0)), (''BB_Upper'', replicate 51 (Fin 10)),
      (''Stoch_K'', replicate 51 (Fin 50)), (''Stoch_D'', replicate 51 (Fin 50)),
      (''Williams_R'', replicate 51 (Fin (- 50))), (''CCI'', replicate 51 (Fin 0)),
      (''SMA_20'', replicate 51 (Fin 5)), (''SMA_50'', replicate 51 (Fin 5)),
      (''SMA_200'', replicate 51 (Fin 5))]"

definition quiet_signal :: TradingSignal where
  "quiet_signal =
     \<lparr> date = 50, signal_type = BUY, strength = WEAK, price = Fin 5,
       indicators = indicators_dict_of (row_at quiet_frame 50),
       reasons = [''RSI Oversold''], confidence = 1 / 4 \<rparr>"

text \<open>
  A configuration whose threshold is 9, and a frame of 51 rows in which, at position 50, the
  RSI is oversold, the MACD crosses above its signal line and SMA_50 crosses above SMA_200:
  the score there is 2 + 3 + 4 = 9.
\<close>

definition strict_config :: config where
  "strict_config = default_config\<lparr>min_signal_strength := 9\<rparr>"

definition strong_frame :: frame where
  "strong_frame = frame_of 51
     [(''Close'', replicate 51 (Fin 5)), (''RSI'', replicate 51 (Fin 20)),
      (''MACD'', replicate 50 (Fin 1) @ [Fin 3]), (''MACD_Signal'', replicate 51 (Fin 2)),
      (''BB_Lower'', replicate 51 (Fin 0)), (''BB_Upper'', replicate 51 (Fin 10)),
      (''Stoch_K'', replicate 51 (Fin 50)), (''Stoch_D'', replicate 51 (Fin 50)),
      (''Williams_R'', replicate 51 (Fin (- 50))), (''CCI'', replicate 51 (Fin 0)),
      (''SMA_20'', replicate 51 (Fin 5)), (''SMA_50'', replicate 50 (Fin 1) @ [Fin 3]),
      (''SMA_200'', replicate 51 (Fin 2))]"

text \<open>
  A frame as fetched, reduced to its column of finite closes, and the frame the analyzer holds
  after \<open>_calculate_moving_averages\<close> has run on a frame.
\<close>

definition close_frame :: "real list \<Rightarrow> frame" where
  "close_frame closes = frame_of (length closes) [(''Close'', map Fin closes)]"

definition after_moving_averages :: "frame \<Rightarrow> frame" where
  "after_moving_averages f = snd (run_steps [calculate_moving_averages] f)"

text \<open>
  Two close series of which the first 200 values are 100: one spikes to 200 and then falls to
  1, the other steps up to 200 and stays there.
\<close>

definition spike_closes :: "real list" where
  "spike_closes = replicate 200 100 @ [200, 1, 1]"

definition step_up_closes :: "real list" where
  "step_up_closes = replicate 200 100 @ [200, 200]"

text \<open>
  A history of three bars as fetched (with its Returns column), the frame the analyzer holds
  after \<open>calculate_all_indicators\<close>, and a configuration whose RSI window is 0.
\<close>

definition short_frame :: frame where
  "short_frame = frame_of 3
     [(''Close'', map Fin [100, 101, 102]), (''High'', map Fin [101, 102, 103]),
      (''Low'', map Fin [99, 100, 101]), (''Returns'', [NaN, Fin (1 / 100), Fin (1 / 101)])]"

definition after_all_indicators :: "config \<Rightarrow> frame \<Rightarrow> frame" where
  "after_all_indicators cfg f = snd (calculate_all_indicators cfg f)"

definition zero_rsi_config :: config where
  "zero_rsi_config = default_config\<lparr>rsi_window := 0\<rparr>"

text \<open>
  Configurations with one non-positive span or window each, and one in which the Bollinger and
  both Stochastic windows are 0. The last definition says that the seven window and period
  values fit a 64-bit integer.
\<close>

definition zero_macd_config :: config where
  "zero_macd_config = default_config\<lparr>macd_fast := 0\<rparr>"

definition negative_bb_config :: config where
  "negative_bb_config = default_config\<lparr>bb_window := - 1\<rparr>"

definition negative_stoch_config :: config where
  "negative_stoch_config = default_config\<lparr>stoch_d := - 1\<rparr>"

definition zero_windows_config :: config where
  "zero_windows_config = default_config\<lparr>bb_window := 0, stoch_k := 0, stoch_d := 0\<rparr>"

definition windows_fit_int64 :: "config \<Rightarrow> bool" where
  "windows_fit_int64 cfg =
     (rsi_window cfg < 2 ^ 63 \<and> macd_fast cfg < 2 ^ 63 \<and> macd_slow cfg < 2 ^ 63
      \<and> macd_signal cfg < 2 ^ 63 \<and> bb_window cfg < 2 ^ 63 \<and> stoch_k cfg < 2 ^ 63
      \<and> stoch_d cfg < 2 ^ 63)"

text \<open>A row in which every cell is NaN.\<close>

definition nan_row :: row where
  "nan_row = (\<lambda>c. Some NaN)"

text \<open>
  On a series of finite prices the running peak and the drawdown are plain real numbers; these
  are the values that \<open>expanding_max\<close> and the drawdown series of
  \<open>calculate_max_drawdown\<close> hold there.
\<close>

definition running_peak :: "real list \<Rightarrow> real list" where
  "running_peak ps = map (\<lambda>i. Max (set (take (Suc i) ps))) [0..<length ps]"

definition drawdown_real :: "real list \<Rightarrow> real list" where
  "drawdown_real ps =
     map (\<lambda>i. (ps ! i - running_peak ps ! i) / running_peak ps ! i) [0..<length ps]"

section \<open>Position size\<close>

text \<open>
  C9. For every finite account balance \<open>b \<ge> 0\<close>, risk-per-trade fraction \<open>r \<ge> 0\<close> and
  stop-loss percentage strictly greater than 0, the computed position size is a number that is
  at most 0.1 times the account balance.
\<close>

theorem position_size_capped:
  assumes "0 \<le> b" and "0 \<le> r" and "fl_lt (Fin 0) s"
  shows "fl_le (calculate_position_size (Fin b) (Fin r) s) (Fin (0.1 * b))"
  using assms
  by (cases s) (auto simp: calculate_position_size_def py_min_def Let_def mult.commute)

theorem position_size_capped_witness:
  "fl_le (calculate_position_size (Fin 100000) (Fin 0.02) (Fin 0.04)) (Fin (0.1 * 100000))"
  using position_size_capped [of 100000 "0.02" "Fin 0.04"] by simp

section \<open>The scan and the signals it emits\<close>

lemmas rule_defs = rsi_rule_def macd_rule_def bb_rule_def stoch_rule_def williams_rule_def
  cci_rule_def sma20_rule_def cross_rule_def fl_gt_def fl_ge_def fl_sub_def

text \<open>A scan that does not raise returns, in scan order, the signals of its positions.\<close>

lemma scan_Inr_eq:
  "scan cfg f ps = Inr sigs \<Longrightarrow> sigs = List.map_filter (signal_at cfg f) ps"
proof (induction ps arbitrary: sigs)
  case Nil
  then show ?case by (simp add: map_filter_simps)
next
  case (Cons i rest)
  from Cons.prems obtain s signals where
    st: "step cfg i (row_at f i) (row_at f (i - 1)) = Inr s"
    and rec: "scan cfg f rest = Inr signals"
    and sg: "sigs = (case s of None \<Rightarrow> signals | Some t \<Rightarrow> t # signals)"
    by (auto simp: iloc_def split: if_splits sum.splits)
  from st have "s = signal_at cfg f i"
    by (auto simp: step_def signal_at_def score_at_def split: option.splits)
  with Cons.IH [OF rec] sg show ?case
    by (simp add: map_filter_simps split: option.splits)
qed

lemma emit_date: "emit cfg i c d s r = Some t \<Longrightarrow> date t = i"
  by (auto simp: emit_def Let_def split: if_splits)

lemma signal_at_date: "signal_at cfg f i = Some t \<Longrightarrow> date t = i"
  unfolding signal_at_def by (rule emit_date)

lemma filter_date_map_filter:
  "distinct ps \<Longrightarrow>
   filter (\<lambda>t. date t = i) (List.map_filter (signal_at cfg f) ps) =
     (if i \<in> set ps then (case signal_at cfg f i of None \<Rightarrow> [] | Some t \<Rightarrow> [t]) else [])"
proof (induction ps)
  case Nil
  then show ?case by (simp add: map_filter_simps)
next
  case (Cons j rest)
  then show ?case
    by (auto simp: map_filter_simps dest: signal_at_date split: option.splits)
qed

lemma set_map_filter_signal:
  "t \<in> set (List.map_filter (signal_at cfg f) ps) \<Longrightarrow> \<exists>i\<in>set ps. signal_at cfg f i = Some t"
  by (auto simp: map_filter_def)

lemma missing_column_None:
  "list_all (\<lambda>c. r c \<noteq> None) scan_columns \<Longrightarrow> missing_column r = None"
  by (auto simp: missing_column_def scan_columns_def find_None_iff)

text \<open>On a frame that has every scanned column the scan does not raise.\<close>

lemma scan_total:
  assumes "list_all (\<lambda>c. cols f c \<noteq> None) scan_columns" and "list_all (\<lambda>i. i < nrows f) ps"
  shows "scan cfg f ps = Inr (List.map_filter (signal_at cfg f) ps)"
  using assms(2)
proof (induction ps)
  case Nil
  then show ?case by (simp add: map_filter_simps)
next
  case (Cons i rest)
  have "list_all (\<lambda>c. row_at f i c \<noteq> None) scan_columns"
    using assms(1) by (simp add: row_at_def list_all_iff)
  then have "missing_column (row_at f i) = None"
    by (rule missing_column_None)
  moreover from Cons.prems have "i < nrows f" and "i - 1 < nrows f"
    by auto
  ultimately show ?case
    using Cons
    by (simp add: iloc_def step_def signal_at_def score_at_def map_filter_simps
        split: option.splits)
qed

lemma generate_advanced_signals_total:
  assumes "list_all (\<lambda>c. cols f c \<noteq> None) scan_columns"
  shows "generate_advanced_signals cfg f =
           Inr (List.map_filter (signal_at cfg f) (scan_positions f))"
  unfolding generate_advanced_signals_def
  by (rule scan_total [OF assms]) (simp add: scan_positions_def list_all_iff)

subsection \<open>The two concrete frames\<close>

lemma upt_50_51: "[50..<51] = [50::nat]"
  by (simp add: upt_rec)

lemma val_frame_of:
  "val (row_at (frame_of n cs) i) c = (case map_of cs c of Some xs \<Rightarrow> xs ! i | None \<Rightarrow> NaN)"
  by (simp add: val_def row_at_def frame_of_def split: option.splits)

lemma quiet_rows: "row_at quiet_frame 49 = row_at quiet_frame 50"
  by (rule ext) (simp add: row_at_def quiet_frame_def frame_of_def)

lemma quiet_vals:
  "val (row_at quiet_frame 50) ''RSI'' = Fin 20"
  "val (row_at quiet_frame 50) ''Close'' = Fin 5"
  "val (row_at quiet_frame 50) ''MACD'' = Fin 1"
  "val (row_at quiet_frame 50) ''MACD_Signal'' = Fin 1"
  "val (row_at quiet_frame 50) ''BB_Lower'' = Fin 0"
  "val (row_at quiet_frame 50) ''BB_Upper'' = Fin 10"
  "val (row_at quiet_frame 50) ''Stoch_K'' = Fin 50"
  "val (row_at quiet_frame 50) ''Stoch_D'' = Fin 50"
  "val (row_at quiet_frame 50) ''Williams_R'' = Fin (- 50)"
  "val (row_at quiet_frame 50) ''CCI'' = Fin 0"
  "val (row_at quiet_frame 50) ''SMA_20'' = Fin 5"
  "val (row_at quiet_frame 50) ''SMA_50'' = Fin 5"
  "val (row_at quiet_frame 50) ''SMA_200'' = Fin 5"
  by (simp_all add: val_frame_of quiet_frame_def)

lemma quiet_results:
  "rule_results default_config (row_at quiet_frame 50) (row_at quiet_frame 49) =
     [(2, [''RSI Oversold'']), (0, []), (0, []), (0, []), (0, []), (0, []), (0, []), (0, [])]"
  by (simp add: rule_results_def bb_position_of_def quiet_rows quiet_vals rule_defs
      default_config_def)

lemma quiet_present: "list_all (\<lambda>c. row_at quiet_frame 50 c \<noteq> None) scan_columns"
  by (simp add: scan_columns_def row_at_def quiet_frame_def frame_of_def)

lemma quiet_gen: "generate_advanced_signals default_config quiet_frame = Inr [quiet_signal]"
proof -
  have n: "nrows quiet_frame = 51"
    by (simp add: quiet_frame_def frame_of_def)
  have s: "signal_score_of default_config (row_at quiet_frame 50) (row_at quiet_frame 49) = 2"
    by (simp add: signal_score_of_def quiet_results accumulate_def)
  have r: "reasons_of default_config (row_at quiet_frame 50) (row_at quiet_frame 49) =
      [''RSI Oversold'']"
    by (simp add: reasons_of_def quiet_results accumulate_def)
  have m: "min_signal_strength default_config = 2"
    by (simp add: default_config_def)
  show ?thesis
    by (simp add: generate_advanced_signals_def scan_positions_def n upt_50_51 iloc_def
        step_def missing_column_None [OF quiet_present] s r quiet_vals emit_def m
        quiet_signal_def)
qed

lemma strong_vals:
  "val (row_at strong_frame 50) ''RSI'' = Fin 20"
  "val (row_at strong_frame 50) ''Close'' = Fin 5"
  "val (row_at strong_frame 50) ''MACD'' = Fin 3"
  "val (row_at strong_frame 50) ''MACD_Signal'' = Fin 2"
  "val (row_at strong_frame 50) ''BB_Lower'' = Fin 0"
  "val (row_at strong_frame 50) ''BB_Upper'' = Fin 10"
  "val (row_at strong_frame 50) ''Stoch_K'' = Fin 50"
  "val (row_at strong_frame 50) ''Stoch_D'' = Fin 50"
  "val (row_at strong_frame 50) ''Williams_R'' = Fin (- 50)"
  "val (row_at strong_frame 50) ''CCI'' = Fin 0"
  "val (row_at strong_frame 50) ''SMA_20'' = Fin 5"
  "val (row_at strong_frame 50) ''SMA_50'' = Fin 3"
  "val (row_at strong_frame 50) ''SMA_200'' = Fin 2"
  "val (row_at strong_frame 49) ''Close'' = Fin 5"
  "val (row_at strong_frame 49) ''MACD'' = Fin 1"
  "val (row_at strong_frame 49) ''MACD_Signal'' = Fin 2"
  "val (row_at strong_frame 49) ''Stoch_K'' = Fin 50"
  "val (row_at strong_frame 49) ''Stoch_D'' = Fin 50"
  "val (row_at strong_frame 49) ''SMA_20'' = Fin 5"
  "val (row_at strong_frame 49) ''SMA_50'' = Fin 1"
  "val (row_at strong_frame 49) ''SMA_200'' = Fin 2"
  by (simp_all add: val_frame_of strong_frame_def nth_append)

lemma strong_results:
  "rule_results strict_config (row_at strong_frame 50) (row_at strong_frame 49) =
     [(2, [''RSI Oversold'']), (3, [''MACD Bullish Crossover'']), (0, []), (0, []), (0, []),
      (0, []), (0, []), (4, [''Golden Cross''])]"
  by (simp add: rule_results_def bb_position_of_def strong_vals rule_defs strict_config_def
      default_config_def)

lemma strong_present: "list_all (\<lambda>c. row_at strong_frame 50 c \<noteq> None) scan_columns"
  by (simp add: scan_columns_def row_at_def strong_frame_def frame_of_def)

lemma strong_gen:
  "generate_advanced_signals strict_config strong_frame =
     Inr [\<lparr> date = 50, signal_type = BUY, strength = STRONG, price = Fin 5,
             indicators = indicators_dict_of (row_at strong_frame 50),
             reasons = [''RSI Oversold'', ''MACD Bullish Crossover'', ''Golden Cross''],
             confidence = 1 \<rparr>]"
proof -
  have n: "nrows strong_frame = 51"
    by (simp add: strong_frame_def frame_of_def)
  have s: "signal_score_of strict_config (row_at strong_frame 50) (row_at strong_frame 49) = 9"
    by (simp add: signal_score_of_def strong_results accumulate_def)
  have r: "reasons_of strict_config (row_at strong_frame 50) (row_at strong_frame 49) =
      [''RSI Oversold'', ''MACD Bullish Crossover'', ''Golden Cross'']"
    by (simp add: reasons_of_def strong_results accumulate_def)
  have m: "min_signal_strength strict_config = 9"
    by (simp add: strict_config_def)
  show ?thesis
    by (simp add: generate_advanced_signals_def scan_positions_def n upt_50_51 iloc_def
        step_def missing_column_None [OF strong_present] s r strong_vals emit_def m)
qed

subsection \<open>Emission of a signal\<close>

text \<open>
  C4. Let the scan of a frame return the list \<open>sigs\<close>, and let \<open>i\<close> be a scanned position.
  If the absolute score accumulated at \<open>i\<close> is at least \<open>min_signal_strength\<close>, exactly one
  signal of \<open>sigs\<close> carries the date of \<open>i\<close>: its type is Buy if the score is positive and Sell
  otherwise, its strength is Weak if \<open>min(|score|, 6) / 2 \<le> 1.5\<close>, Moderate if that value is
  at most 2.5 and Strong otherwise, and its confidence is \<open>min(|score| / 8, 1)\<close>. If the
  absolute score is below the threshold, no signal of \<open>sigs\<close> carries that date.
\<close>

theorem signal_emission:
  assumes "generate_advanced_signals cfg f = Inr sigs" and "i \<in> set (scan_positions f)"
  shows "filter (\<lambda>t. date t = i) sigs =
           (if min_signal_strength cfg \<le> \<bar>score_at cfg f i\<bar> then
              [\<lparr> date = i,
                 signal_type = (if 0 < score_at cfg f i then BUY else SELL),
                 strength =
                   (if real_of_int (min \<bar>score_at cfg f i\<bar> 6) / 2 \<le> 1.5 then WEAK
                    else if real_of_int (min \<bar>score_at cfg f i\<bar> 6) / 2 \<le> 2.5 then MODERATE
                    else STRONG),
                 price = val (row_at f i) ''Close'',
                 indicators = indicators_dict_of (row_at f i),
                 reasons = reasons_of cfg (row_at f i) (row_at f (i - 1)),
                 confidence = min (real_of_int \<bar>score_at cfg f i\<bar> / 8) 1 \<rparr>]
            else [])"
proof -
  from assms(1) have "sigs = List.map_filter (signal_at cfg f) (scan_positions f)"
    unfolding generate_advanced_signals_def by (rule scan_Inr_eq)
  moreover have "distinct (scan_positions f)"
    by (simp add: scan_positions_def)
  ultimately have "filter (\<lambda>t. date t = i) sigs =
      (case signal_at cfg f i of None \<Rightarrow> [] | Some t \<Rightarrow> [t])"
    using assms(2) by (simp add: filter_date_map_filter)
  then show ?thesis
    by (simp add: signal_at_def emit_def Let_def)
qed

theorem signal_emission_witness:
  "generate_advanced_signals default_config quiet_frame = Inr [quiet_signal]
   \<and> 50 \<in> set (scan_positions quiet_frame)
   \<and> filter (\<lambda>t. date t = 50) [quiet_signal] = [quiet_signal]"
proof -
  have p: "50 \<in> set (scan_positions quiet_frame)"
    by (simp add: scan_positions_def quiet_frame_def frame_of_def)
  from signal_emission [OF quiet_gen p] have
    "filter (\<lambda>t. date t = 50) [quiet_signal] = [quiet_signal]"
    by (simp add: quiet_signal_def)
  with quiet_gen p show ?thesis by simp
qed

subsection \<open>Confidence of an emitted signal\<close>

lemma emit_confidence:
  assumes "emit cfg i c d s r = Some t"
  shows "confidence t = min (real_of_int \<bar>s\<bar> / 8) 1 \<and> min_signal_strength cfg \<le> \<bar>s\<bar>"
  using assms by (auto simp: emit_def Let_def split: if_splits)

text \<open>
  C10, as stated, fails: with \<open>min_signal_strength = 9\<close> a step of score 9 emits a signal of
  confidence 1, which is below \<open>min_signal_strength / 8 = 1.125\<close>.
\<close>

theorem confidence_counterexample:
  "map_sum id (map confidence) (generate_advanced_signals strict_config strong_frame) = Inr [1]
   \<and> \<not> real_of_int (min_signal_strength strict_config) / 8 \<le> 1"
proof -
  have "min_signal_strength strict_config = 9"
    by (simp add: strict_config_def)
  then show ?thesis
    by (simp add: strong_gen)
qed

text \<open>
  C10, amended. Every emitted signal has a confidence in the closed interval from
  \<open>min(min_signal_strength / 8, 1)\<close> to 1; the confidence is positive whenever
  \<open>min_signal_strength\<close> is positive, and it is at least 0.25 under the default threshold 2.
\<close>

theorem confidence_bounds:
  assumes "generate_advanced_signals cfg f = Inr sigs" and "t \<in> set sigs"
  shows "min (real_of_int (min_signal_strength cfg) / 8) 1 \<le> confidence t
         \<and> confidence t \<le> 1
         \<and> (0 < min_signal_strength cfg \<longrightarrow> 0 < confidence t)
         \<and> (min_signal_strength cfg = 2 \<longrightarrow> 1 / 4 \<le> confidence t)"
proof -
  from assms(1) have "sigs = List.map_filter (signal_at cfg f) (scan_positions f)"
    unfolding generate_advanced_signals_def by (rule scan_Inr_eq)
  with assms(2) obtain i where "signal_at cfg f i = Some t"
    using set_map_filter_signal by blast
  then obtain s where c: "confidence t = min (real_of_int \<bar>s\<bar> / 8) 1"
    and m: "min_signal_strength cfg \<le> \<bar>s\<bar>"
    unfolding signal_at_def using emit_confidence by blast
  from m have "real_of_int (min_signal_strength cfg) / 8 \<le> real_of_int \<bar>s\<bar> / 8"
    by simp
  with c m show ?thesis
    by (auto simp: min_def)
qed

theorem confidence_bounds_witness:
  "generate_advanced_signals default_config quiet_frame = Inr [quiet_signal]
   \<and> quiet_signal \<in> set [quiet_signal]
   \<and> min (real_of_int (min_signal_strength default_config) / 8) 1 \<le> confidence quiet_signal
   \<and> confidence quiet_signal \<le> 1
   \<and> 0 < min_signal_strength default_config
   \<and> 0 < confidence quiet_signal
   \<and> min_signal_strength default_config = 2
   \<and> 1 / 4 \<le> confidence quiet_signal"
proof -
  have m: "min_signal_strength default_config = 2"
    by (simp add: default_config_def)
  have "quiet_signal \<in> set [quiet_signal]"
    by simp
  from confidence_bounds [OF quiet_gen this] m quiet_gen show ?thesis
    by simp
qed

section \<open>Undefined values in the rules\<close>

lemma fl_lt_nan [simp]: "is_nan a \<Longrightarrow> fl_lt a b = False" "is_nan b \<Longrightarrow> fl_lt a b = False"
  by (cases a; cases b; simp)+

lemma fl_le_nan [simp]: "is_nan a \<Longrightarrow> fl_le a b = False" "is_nan b \<Longrightarrow> fl_le a b = False"
  by (cases a; cases b; simp)+

lemma fl_arith_nan:
  "is_nan a \<Longrightarrow> is_nan (fl_add a b)" "is_nan b \<Longrightarrow> is_nan (fl_add a b)"
  "is_nan a \<Longrightarrow> is_nan (fl_neg a)"
  "is_nan a \<Longrightarrow> is_nan (fl_div a b)" "is_nan b \<Longrightarrow> is_nan (fl_div a b)"
  "is_nan a \<Longrightarrow> is_nan (fl_mul a b)" "is_nan b \<Longrightarrow> is_nan (fl_mul a b)"
  by (cases a; cases b; simp)+

lemma bb_position_nan:
  "is_nan (val r ''Close'') \<or> is_nan (val r ''BB_Lower'') \<or> is_nan (val r ''BB_Upper'')
   \<Longrightarrow> is_nan (bb_position_of r)"
  unfolding bb_position_of_def fl_sub_def
  by (auto intro: fl_arith_nan)

text \<open>A rule that yields \<open>(0, [])\<close> leaves the score and the reasons as they were.\<close>

lemma accumulate_skip: "accumulate (xs @ (0, []) # ys) = accumulate (xs @ ys)"
  by (simp add: accumulate_def split: prod.splits)

text \<open>
  C6. At a step of the scan, a rule one of whose operands is NaN does not fire: it yields
  the score change 0 and no reason. The operands of each rule are the cells of the current and
  the previous row that its comparisons read; for the Bollinger rule they are the three cells
  of the band position, and the position itself.
\<close>

theorem undefined_value_never_fires:
  "(is_nan (val current ''RSI'') \<longrightarrow> rsi_rule cfg (val current ''RSI'') = (0, []))
   \<and> (is_nan (val current ''MACD'') \<or> is_nan (val current ''MACD_Signal'')
        \<or> is_nan (val previous ''MACD'') \<or> is_nan (val previous ''MACD_Signal'') \<longrightarrow>
      macd_rule (val current ''MACD'') (val current ''MACD_Signal'')
                (val previous ''MACD'') (val previous ''MACD_Signal'') = (0, []))
   \<and> (is_nan (val current ''Close'') \<or> is_nan (val current ''BB_Lower'')
        \<or> is_nan (val current ''BB_Upper'') \<or> is_nan (bb_position_of current) \<longrightarrow>
      bb_rule (bb_position_of current) = (0, []))
   \<and> (is_nan (val current ''Stoch_K'') \<or> is_nan (val current ''Stoch_D'')
        \<or> is_nan (val previous ''Stoch_K'') \<or> is_nan (val previous ''Stoch_D'') \<longrightarrow>
      stoch_rule (val current ''Stoch_K'') (val current ''Stoch_D'')
                 (val previous ''Stoch_K'') (val previous ''Stoch_D'') = (0, []))
   \<and> (is_nan (val current ''Williams_R'') \<longrightarrow>
      williams_rule (val current ''Williams_R'') = (0, []))
   \<and> (is_nan (val current ''CCI'') \<longrightarrow> cci_rule (val current ''CCI'') = (0, []))
   \<and> (is_nan (val current ''Close'') \<or> is_nan (val current ''SMA_20'')
        \<or> is_nan (val previous ''Close'') \<or> is_nan (val previous ''SMA_20'') \<longrightarrow>
      sma20_rule (val current ''Close'') (val current ''SMA_20'')
                 (val previous ''Close'') (val previous ''SMA_20'') = (0, []))
   \<and> (is_nan (val current ''SMA_50'') \<or> is_nan (val current ''SMA_200'')
        \<or> is_nan (val previous ''SMA_50'') \<or> is_nan (val previous ''SMA_200'') \<longrightarrow>
      cross_rule (val current ''SMA_50'') (val current ''SMA_200'')
                 (val previous ''SMA_50'') (val previous ''SMA_200'') = (0, []))"
proof -
  have bb: "is_nan (val current ''Close'') \<or> is_nan (val current ''BB_Lower'')
        \<or> is_nan (val current ''BB_Upper'') \<or> is_nan (bb_position_of current) \<Longrightarrow>
      bb_rule (bb_position_of current) = (0, [])"
    using bb_position_nan [of current] by (auto simp: bb_rule_def fl_gt_def)
  show ?thesis
    using bb
    by (auto simp: rsi_rule_def macd_rule_def stoch_rule_def williams_rule_def cci_rule_def
        sma20_rule_def cross_rule_def fl_gt_def fl_ge_def)
qed

theorem undefined_value_never_fires_witness:
  "is_nan (val nan_row ''RSI'')
   \<and> rule_results default_config nan_row nan_row =
       [(0, []), (0, []), (0, []), (0, []), (0, []), (0, []), (0, []), (0, [])]"
proof -
  have n: "is_nan (val nan_row c)" for c
    by (simp add: nan_row_def val_def)
  from undefined_value_never_fires [of nan_row default_config nan_row] n show ?thesis
    by (simp add: rule_results_def)
qed

section \<open>Rolling means of finite series, and the RSI\<close>

lemma foldl_fl_add_Fin: "foldl fl_add (Fin s) (map Fin ys) = Fin (s + sum_list ys)"
  by (induction ys arbitrary: s) (simp_all add: add.assoc)

lemma fl_sum_Fin: "fl_sum (map Fin ys) = Fin (sum_list ys)"
  by (simp add: fl_sum_def foldl_fl_add_Fin)

lemma mean_Fin: "ys \<noteq> [] \<Longrightarrow> mean (map Fin ys) = Fin (sum_list ys / real (length ys))"
  by (simp add: mean_def fl_sum_Fin fl_of_nat_def)

lemma filter_not_nan_Fin: "filter (\<lambda>v. \<not> is_nan v) (map Fin ys) = map Fin ys"
  by (induction ys) simp_all

lemma prep_values_Fin: "prep_values (map Fin ys) = map Fin ys"
  by (simp add: prep_values_def)

lemma window_at_Fin: "window_at w (map Fin ys) i = map Fin (drop (Suc i - w) (take (Suc i) ys))"
  by (simp add: window_at_def take_map drop_map)

lemma length_roll [simp]: "length (roll agg w minp xs) = length xs"
  by (simp add: roll_def)

lemma roll_mean_Fin:
  assumes "i < length ys"
  shows "roll mean w minp (map Fin ys) ! i =
           (if minp \<le> length (drop (Suc i - w) (take (Suc i) ys))
               \<and> drop (Suc i - w) (take (Suc i) ys) \<noteq> []
            then Fin (sum_list (drop (Suc i - w) (take (Suc i) ys))
                      / real (length (drop (Suc i - w) (take (Suc i) ys))))
            else NaN)"
  using assms
  by (simp add: roll_def prep_values_Fin window_at_Fin filter_not_nan_Fin mean_Fin Let_def
      del: upt_Suc)

lemma all_Fin_map: "set xs \<subseteq> range Fin \<Longrightarrow> \<exists>ys. xs = map Fin ys"
proof (induction xs)
  case Nil
  then show ?case by simp
next
  case (Cons x xs)
  then obtain ys y where "xs = map Fin ys" and "x = Fin y"
    by auto
  then have "x # xs = map Fin (y # ys)"
    by simp
  then show ?case by (rule exI)
qed

lemma diff_Fin: "set (diff (map Fin ps)) \<subseteq> insert NaN (range Fin)"
proof
  fix v assume "v \<in> set (diff (map Fin ps))"
  then obtain a b where z: "(a, b) \<in> set (zip (map Fin ps) (shift (map Fin ps)))"
    and v: "v = fl_sub a b"
    by (auto simp: diff_def)
  from z have a: "a \<in> set (map Fin ps)"
    by (rule set_zip_leftD)
  from z have b: "b \<in> set (shift (map Fin ps))"
    by (rule set_zip_rightD)
  have "set (butlast (map Fin ps)) \<subseteq> range Fin"
    using in_set_butlastD [of _ "map Fin ps"] by auto
  with b have "b = NaN \<or> b \<in> range Fin"
    by (auto simp: shift_def split: if_splits)
  with a v show "v \<in> insert NaN (range Fin)"
    by (auto simp: fl_sub_def)
qed

lemma where_Fin:
  assumes "set xs \<subseteq> insert NaN (range Fin)" and "\<not> cond NaN"
  shows "set (where_series cond (Fin 0) xs) \<subseteq> range Fin"
  using assms by (auto simp: where_series_def)

lemma length_diff [simp]: "length (diff xs) = length xs"
  by (simp add: diff_def shift_def)

text \<open>
  What \<open>rsi\<close> returns where the average loss is exactly zero: on every series of finite
  prices and every window of at least 1, the RSI at such a position is 0. The zero loss is
  replaced by infinity, the relative strength becomes gain / infinity = 0, and
  100 - 100 / (1 + 0) = 0.
\<close>

lemma rsi_zero_loss:
  assumes w: "1 \<le> window" and l: "rsi_loss (map Fin ps) window = Inr loss"
    and i: "i < length ps" and z: "loss ! i = Fin 0"
  shows "\<exists>r. rsi (map Fin ps) window = Inr r \<and> r ! i = Fin 0"
proof -
  have "set (where_series (\<lambda>d. fl_gt d (Fin 0)) (Fin 0) (diff (map Fin ps))) \<subseteq> range Fin"
    by (rule where_Fin [OF diff_Fin]) (simp add: fl_gt_def)
  then obtain gs where gs: "where_series (\<lambda>d. fl_gt d (Fin 0)) (Fin 0) (diff (map Fin ps)) = map Fin gs"
    using all_Fin_map by blast
  then have lg: "length gs = length ps"
    by (metis length_diff length_map where_series_def)
  from w have r: "rolling window (Some 1) = Inr (nat window, 1)"
    by (simp add: rolling_def)
  have g: "rsi_gain (map Fin ps) window = Inr (roll mean (nat window) 1 (map Fin gs))"
    by (simp add: rsi_gain_def rolling_mean_def r gs)
  from l r have ll: "length loss = length ps"
    by (auto simp: rsi_loss_def rolling_mean_def where_series_def)
  from w i lg have "drop (Suc i - nat window) (take (Suc i) gs) \<noteq> []"
    by auto
  then obtain x where gi: "roll mean (nat window) 1 (map Fin gs) ! i = Fin x"
    using roll_mean_Fin [of i gs "nat window" 1] i lg
    by (auto simp: Suc_le_eq)
  show ?thesis
    using i lg ll z gi
    by (simp add: rsi_def g l replace_def fl_sub_def)
qed

text \<open>
  C1 states that the RSI is exactly 100 at every position whose rolling average loss is
  exactly 0. The code returns 0 there. On the flat series 50, 50, 50 and on the rising series
  100, 101, 102, with the default window 14, the average loss is 0 at every position and so is
  the RSI.
\<close>

theorem rsi_zero_loss_evaluated:
  "rsi_loss (map Fin [50, 50, 50]) 14 = Inr [Fin 0, Fin 0, Fin 0]
   \<and> rsi (map Fin [50, 50, 50]) 14 = Inr [Fin 0, Fin 0, Fin 0]
   \<and> rsi_loss (map Fin [100, 101, 102]) 14 = Inr [Fin 0, Fin 0, Fin 0]
   \<and> rsi (map Fin [100, 101, 102]) 14 = Inr [Fin 0, Fin 0, Fin 0]"
  by (simp add: rsi_def rsi_gain_def rsi_loss_def rolling_mean_def rolling_def roll_def
      prep_values_def mean_def
      fl_sum_def fl_of_nat_def window_at_def diff_def shift_def where_series_def replace_def
      fl_sub_def fl_gt_def upt_rec)

section \<open>Maximum drawdown\<close>

lemma foldl_max_Fin:
  "foldl (\<lambda>a b. if fl_lt a b then b else a) (Fin z) (map Fin zs) = Fin (Max (insert z (set zs)))"
proof (induction zs arbitrary: z)
  case Nil
  then show ?case by simp
next
  case (Cons y ys)
  have st: "(if fl_lt (Fin z) (Fin y) then Fin y else Fin z) = Fin (max z y)"
    by (simp add: max_def)
  have mx: "Max (insert (max z y) (set ys)) = Max (insert z (insert y (set ys)))"
    by (cases "set ys = {}") (simp_all add: max.assoc)
  show ?case
    by (simp only: list.map foldl_Cons st Cons.IH mx list.set)
qed

lemma foldl_min_Fin:
  "foldl (\<lambda>a b. if fl_lt b a then b else a) (Fin z) (map Fin zs) = Fin (Min (insert z (set zs)))"
proof (induction zs arbitrary: z)
  case Nil
  then show ?case by simp
next
  case (Cons y ys)
  have st: "(if fl_lt (Fin y) (Fin z) then Fin y else Fin z) = Fin (min z y)"
    by (simp add: min_def)
  have mn: "Min (insert (min z y) (set ys)) = Min (insert z (insert y (set ys)))"
    by (cases "set ys = {}") (simp_all add: min.assoc)
  show ?case
    by (simp only: list.map foldl_Cons st Cons.IH mn list.set)
qed

lemma max_list_Fin: "zs \<noteq> [] \<Longrightarrow> max_list (map Fin zs) = Fin (Max (set zs))"
  by (cases zs) (simp_all add: max_list_def foldl_max_Fin)

lemma min_list_Fin: "zs \<noteq> [] \<Longrightarrow> min_list (map Fin zs) = Fin (Min (set zs))"
  by (cases zs) (simp_all add: min_list_def foldl_min_Fin)

lemma expanding_max_Fin: "expanding_max (map Fin ps) = map Fin (running_peak ps)"
proof -
  have "max_list (filter (\<lambda>v. \<not> is_nan v) (take (Suc i) (map Fin ps))) =
          Fin (Max (set (take (Suc i) ps)))" if "i < length ps" for i
  proof -
    from that have "take (Suc i) ps \<noteq> []"
      by (cases ps) simp_all
    then show ?thesis
      by (simp add: take_map filter_not_nan_Fin max_list_Fin)
  qed
  then show ?thesis
    by (simp add: expanding_max_def running_peak_def prep_values_Fin)
qed

lemma running_peak_nth:
  "i < length ps \<Longrightarrow> running_peak ps ! i = Max (set (take (Suc i) ps))"
  by (simp add: running_peak_def)

lemma running_peak_ge: "i < length ps \<Longrightarrow> ps ! i \<le> running_peak ps ! i"
proof -
  assume i: "i < length ps"
  then have "ps ! i \<in> set (take (Suc i) ps)"
    by (metis in_set_conv_nth length_take lessI min_less_iff_conj nth_take)
  then show ?thesis
    using i by (simp add: running_peak_nth)
qed

lemma drawdown_Fin:
  assumes "list_all (\<lambda>p. 0 < p) ps"
  shows "map2 fl_div (map2 fl_sub (map Fin ps) (map Fin (running_peak ps)))
           (map Fin (running_peak ps)) = map Fin (drawdown_real ps)"
proof (rule nth_equalityI)
  show "length (map2 fl_div (map2 fl_sub (map Fin ps) (map Fin (running_peak ps)))
           (map Fin (running_peak ps))) = length (map Fin (drawdown_real ps))"
    by (simp add: running_peak_def drawdown_real_def)
next
  fix i
  assume "i < length (map2 fl_div (map2 fl_sub (map Fin ps) (map Fin (running_peak ps)))
           (map Fin (running_peak ps)))"
  then have i: "i < length ps"
    by (simp add: running_peak_def)
  with assms have "0 < ps ! i"
    by (simp add: list_all_length)
  with running_peak_ge [OF i] have "running_peak ps ! i \<noteq> 0"
    by simp
  with i show "map2 fl_div (map2 fl_sub (map Fin ps) (map Fin (running_peak ps)))
           (map Fin (running_peak ps)) ! i = map Fin (drawdown_real ps) ! i"
    by (simp add: running_peak_def drawdown_real_def fl_sub_def)
qed

lemma max_drawdown_Fin:
  assumes "ps \<noteq> []" and "list_all (\<lambda>p. 0 < p) ps"
  shows "calculate_max_drawdown (map Fin ps) = Fin (Min (set (drawdown_real ps)))"
proof -
  from assms(1) have "drawdown_real ps \<noteq> []"
    by (simp add: drawdown_real_def)
  then show ?thesis
    by (simp add: calculate_max_drawdown_def expanding_max_Fin drawdown_Fin [OF assms(2)]
        series_min_def filter_not_nan_Fin min_list_Fin)
qed

lemma sorted_iff_running_peak:
  "sorted ps \<longleftrightarrow> (\<forall>i<length ps. ps ! i = running_peak ps ! i)"
proof
  assume s: "sorted ps"
  show "\<forall>i<length ps. ps ! i = running_peak ps ! i"
  proof (intro allI impI)
    fix i assume i: "i < length ps"
    have "x \<le> ps ! i" if "x \<in> set (take (Suc i) ps)" for x
    proof -
      from that obtain j where "j < Suc i" and "j < length ps" and "x = ps ! j"
        by (auto simp: in_set_conv_nth)
      with s i show ?thesis
        by (simp add: sorted_iff_nth_mono)
    qed
    moreover have "take (Suc i) ps \<noteq> []"
      using i by (cases ps) simp_all
    ultimately have "Max (set (take (Suc i) ps)) \<le> ps ! i"
      by simp
    with running_peak_ge [OF i] i show "ps ! i = running_peak ps ! i"
      by (simp add: running_peak_nth)
  qed
next
  assume a: "\<forall>i<length ps. ps ! i = running_peak ps ! i"
  show "sorted ps"
    unfolding sorted_iff_nth_mono
  proof (intro allI impI)
    fix j i assume ji: "j \<le> i" and i: "i < length ps"
    then have "ps ! j \<in> set (take (Suc i) ps)"
      by (auto simp: in_set_conv_nth intro!: exI [of _ j])
    then have "ps ! j \<le> Max (set (take (Suc i) ps))"
      by simp
    with a i show "ps ! j \<le> ps ! i"
      by (simp add: running_peak_nth)
  qed
qed

text \<open>
  C8. For every non-empty series of strictly positive close prices, the maximum drawdown is a
  number less than or equal to 0, and it is exactly 0 if and only if the series is
  non-decreasing throughout.
\<close>

theorem max_drawdown_nonpositive:
  assumes "ps \<noteq> []" and "list_all (\<lambda>p. 0 < p) ps"
  shows "\<exists>d. calculate_max_drawdown (map Fin ps) = Fin d \<and> d \<le> 0 \<and> (d = 0 \<longleftrightarrow> sorted ps)"
proof -
  let ?dd = "drawdown_real ps"
  have ne: "?dd \<noteq> []"
    using assms(1) by (simp add: drawdown_real_def)
  have each: "?dd ! i \<le> 0 \<and> (?dd ! i = 0 \<longleftrightarrow> ps ! i = running_peak ps ! i)"
    if i: "i < length ps" for i
  proof -
    from assms(2) i have "0 < ps ! i"
      by (simp add: list_all_length)
    with running_peak_ge [OF i] have pos: "0 < running_peak ps ! i"
      by simp
    with running_peak_ge [OF i] i show ?thesis
      by (simp add: drawdown_real_def divide_le_0_iff)
  qed
  have len: "length ?dd = length ps"
    by (simp add: drawdown_real_def)
  have all_le: "\<forall>x\<in>set ?dd. x \<le> 0"
    using each len by (metis in_set_conv_nth)
  from ne have "Min (set ?dd) \<in> set ?dd"
    by simp
  with all_le have le: "Min (set ?dd) \<le> 0"
    by blast
  have "Min (set ?dd) = 0 \<longleftrightarrow> (\<forall>x\<in>set ?dd. x = 0)"
  proof
    assume "Min (set ?dd) = 0"
    then have "\<forall>x\<in>set ?dd. 0 \<le> x"
      using ne by (metis List.finite_set Min_le)
    with all_le show "\<forall>x\<in>set ?dd. x = 0"
      by fastforce
  next
    assume "\<forall>x\<in>set ?dd. x = 0"
    with \<open>Min (set ?dd) \<in> set ?dd\<close> show "Min (set ?dd) = 0"
      by blast
  qed
  also have "\<dots> \<longleftrightarrow> (\<forall>i<length ps. ?dd ! i = 0)"
    using len by (metis in_set_conv_nth)
  also have "\<dots> \<longleftrightarrow> (\<forall>i<length ps. ps ! i = running_peak ps ! i)"
    using each by blast
  also have "\<dots> \<longleftrightarrow> sorted ps"
    by (simp add: sorted_iff_running_peak)
  finally have "Min (set ?dd) = 0 \<longleftrightarrow> sorted ps" .
  with le max_drawdown_Fin [OF assms] show ?thesis
    by simp
qed

theorem max_drawdown_nonpositive_witness:
  "[100, 120, 90, 130] \<noteq> ([] :: real list)
   \<and> list_all (\<lambda>p. 0 < p) [100, 120, 90, 130 :: real]
   \<and> (\<exists>d. calculate_max_drawdown (map Fin [100, 120, 90, 130]) = Fin d \<and> d \<le> 0
          \<and> (d = 0 \<longleftrightarrow> sorted [100, 120, 90, 130 :: real]))"
  using max_drawdown_nonpositive [of "[100, 120, 90, 130]"] by simp

section \<open>Moving averages and the warm-up offset\<close>

lemma cols_setcol [simp]: "cols (setcol c xs f) c' = (if c' = c then Some xs else cols f c')"
  by (simp add: setcol_def)

lemma nrows_setcol [simp]: "nrows (setcol c xs f) = nrows f"
  by (simp add: setcol_def)

lemma moving_averages_close_frame:
  "run_steps [calculate_moving_averages] (close_frame closes) =
     (None, after_moving_averages (close_frame closes))"
  by (simp add: after_moving_averages_def calculate_moving_averages_def bind_err_def getcol_def
      close_frame_def frame_of_def rolling_mean_def rolling_def ewm_mean_def)

lemma sma_close_frame:
  "sma50_at (after_moving_averages (close_frame closes)) i = roll mean 50 50 (map Fin closes) ! i"
  "sma200_at (after_moving_averages (close_frame closes)) i = roll mean 200 200 (map Fin closes) ! i"
  by (simp_all add: sma50_at_def sma200_at_def val_def row_at_def after_moving_averages_def
      calculate_moving_averages_def bind_err_def getcol_def close_frame_def frame_of_def
      rolling_mean_def rolling_def ewm_mean_def)

lemma nrows_after_moving_averages:
  "nrows (after_moving_averages (close_frame closes)) = length closes"
  by (simp add: after_moving_averages_def calculate_moving_averages_def bind_err_def getcol_def
      close_frame_def frame_of_def rolling_mean_def rolling_def ewm_mean_def)

text \<open>A rolling mean is undefined until its window is full; then it is the mean of the
  last \<open>w\<close> values.\<close>

lemma roll_mean_full:
  assumes "i < length ys" and "0 < w"
  shows "roll mean w w (map Fin ys) ! i =
           (if w \<le> Suc i then Fin (sum_list (drop (Suc i - w) (take (Suc i) ys)) / real w)
            else NaN)"
proof -
  from assms have "length (drop (Suc i - w) (take (Suc i) ys)) = min (Suc i) w"
    by auto
  with assms show ?thesis
    by (auto simp: roll_mean_Fin simp del: length_drop)
qed

lemma sma_at:
  assumes "i < length closes"
  shows "sma50_at (after_moving_averages (close_frame closes)) i =
           (if 50 \<le> Suc i then Fin (sum_list (drop (Suc i - 50) (take (Suc i) closes)) / 50)
            else NaN)"
    and "sma200_at (after_moving_averages (close_frame closes)) i =
           (if 200 \<le> Suc i then Fin (sum_list (drop (Suc i - 200) (take (Suc i) closes)) / 200)
            else NaN)"
  using assms by (simp_all only: sma_close_frame roll_mean_full) simp_all

lemma sma200_flat:
  "sma200_at (after_moving_averages (close_frame (replicate 250 50))) 50 = NaN"
  "sma200_at (after_moving_averages (close_frame (replicate 250 50))) 198 = NaN"
  "sma200_at (after_moving_averages (close_frame (replicate 250 50))) 199 = Fin 50"
  by (simp_all add: sma_at sum_list_replicate)

lemma spike_sma:
  "sma50_at (after_moving_averages (close_frame spike_closes)) 199 = Fin 100"
  "sma200_at (after_moving_averages (close_frame spike_closes)) 199 = Fin 100"
  "sma50_at (after_moving_averages (close_frame spike_closes)) 200 = Fin 102"
  "sma200_at (after_moving_averages (close_frame spike_closes)) 200 = Fin (201 / 2)"
  "sma50_at (after_moving_averages (close_frame spike_closes)) 201 = Fin (5001 / 50)"
  "sma200_at (after_moving_averages (close_frame spike_closes)) 201 = Fin (20001 / 200)"
  "sma50_at (after_moving_averages (close_frame spike_closes)) 202 = Fin (4902 / 50)"
  "sma200_at (after_moving_averages (close_frame spike_closes)) 202 = Fin (19902 / 200)"
  by (simp_all add: sma_at spike_closes_def sum_list_replicate)

text \<open>
  C2 states that the scan starts at an offset that is at least the longest lookback window
  (200, for SMA_200), so that every indicator value a rule compares is defined. The loop starts
  at 50. On 250 flat closes the moving averages are computed without error, the scan covers the
  positions 50 to 249, and SMA_200 is NaN at the scanned positions 50 to 198 (shown at both
  ends); it is first defined at position 199.
\<close>

theorem warmup_below_sma200_window:
  "run_steps [calculate_moving_averages] (close_frame (replicate 250 50)) =
     (None, after_moving_averages (close_frame (replicate 250 50)))
   \<and> scan_positions (after_moving_averages (close_frame (replicate 250 50))) = [50..<250]
   \<and> sma200_at (after_moving_averages (close_frame (replicate 250 50))) 50 = NaN
   \<and> sma200_at (after_moving_averages (close_frame (replicate 250 50))) 198 = NaN
   \<and> sma200_at (after_moving_averages (close_frame (replicate 250 50))) 199 = Fin 50"
  by (simp add: moving_averages_close_frame sma200_flat scan_positions_def
      nrows_after_moving_averages del: run_steps.simps)

section \<open>Golden Cross and Death Cross\<close>

text \<open>
  C5, as stated, fails: its hypothesis speaks of the steps \<open>t - 1\<close> and \<open>t\<close> only. On the
  closes 100 (200 times), 200, 1, 1 the averages SMA_50 and SMA_200 are equal at step 199 and
  SMA_50 is above at step 200, so the Golden Cross rule contributes +4 at \<open>t = 200\<close>; but
  SMA_50 falls below SMA_200 at step 202, where the Death Cross rule contributes -4.
\<close>

theorem golden_cross_counterexample:
  "200 \<in> set (scan_positions (after_moving_averages (close_frame spike_closes)))
   \<and> fl_le (sma50_at (after_moving_averages (close_frame spike_closes)) (200 - 1))
           (sma200_at (after_moving_averages (close_frame spike_closes)) (200 - 1))
   \<and> fl_gt (sma50_at (after_moving_averages (close_frame spike_closes)) 200)
           (sma200_at (after_moving_averages (close_frame spike_closes)) 200)
   \<and> cross_at (after_moving_averages (close_frame spike_closes)) 200 = (4, [''Golden Cross''])
   \<and> 202 \<in> set (scan_positions (after_moving_averages (close_frame spike_closes)))
   \<and> cross_at (after_moving_averages (close_frame spike_closes)) 202 = (- 4, [''Death Cross''])"
proof -
  have "length spike_closes = 203"
    by (simp add: spike_closes_def)
  then show ?thesis
    by (simp add: scan_positions_def nrows_after_moving_averages cross_at_def spike_sma
        cross_rule_def fl_gt_def fl_ge_def)
qed

lemma fl_le_not_lt: "fl_le a b \<Longrightarrow> \<not> fl_lt b a"
  by (cases a; cases b) auto

lemma fl_lt_le: "fl_lt a b \<Longrightarrow> fl_le a b"
  by (cases a; cases b) auto

lemma fl_lt_asym: "fl_lt a b \<Longrightarrow> \<not> fl_lt b a"
  by (cases a; cases b) auto

text \<open>
  C5, amended. Let \<open>t\<close> be a scanned step with SMA_50 less than or equal to SMA_200 at
  \<open>t - 1\<close> and strictly greater at \<open>t\<close>, and let this be the only transition of the frame:
  at every step before \<open>t - 1\<close> SMA_50 is strictly below SMA_200 or one of them is undefined,
  and at every step after \<open>t\<close> SMA_50 is strictly above SMA_200. Then the Golden Cross rule
  contributes exactly +4 at step \<open>t\<close>, and the Golden Cross / Death Cross rule contributes
  nothing at any other scanned step.
\<close>

theorem golden_cross_single_transition:
  assumes scanned: "50 \<le> t" "t < nrows f"
    and prev: "fl_le (sma50_at f (t - 1)) (sma200_at f (t - 1))"
    and cur: "fl_gt (sma50_at f t) (sma200_at f t)"
    and before: "\<forall>v<t - 1. \<not> fl_ge (sma50_at f v) (sma200_at f v)"
    and after: "\<forall>v. t < v \<and> v < nrows f \<longrightarrow> fl_gt (sma50_at f v) (sma200_at f v)"
  shows "cross_at f t = (4, [''Golden Cross''])
         \<and> (\<forall>u\<in>set (scan_positions f). u \<noteq> t \<longrightarrow> cross_at f u = (0, []))"
proof (intro conjI ballI impI)
  from prev cur show "cross_at f t = (4, [''Golden Cross''])"
    by (simp add: cross_at_def cross_rule_def)
next
  fix u assume u: "u \<in> set (scan_positions f)" and ne: "u \<noteq> t"
  then have range: "50 \<le> u" "u < nrows f"
    by (simp_all add: scan_positions_def)
  consider "u < t - 1" | "u = t - 1" | "t < u"
    using ne by linarith
  then show "cross_at f u = (0, [])"
  proof cases
    case 1
    with range have "u - 1 < t - 1"
      by simp
    with before 1 have "\<not> fl_ge (sma50_at f u) (sma200_at f u)"
      and "\<not> fl_ge (sma50_at f (u - 1)) (sma200_at f (u - 1))"
      by simp_all
    then show ?thesis
      by (auto simp: cross_at_def cross_rule_def fl_gt_def fl_ge_def dest: fl_lt_le)
  next
    case 2
    with range scanned have "u - 1 < t - 1"
      by simp
    with before have "\<not> fl_ge (sma50_at f (u - 1)) (sma200_at f (u - 1))"
      by simp
    with prev 2 show ?thesis
      by (auto simp: cross_at_def cross_rule_def fl_gt_def fl_ge_def dest: fl_le_not_lt)
  next
    case 3
    with after range have c: "fl_gt (sma50_at f u) (sma200_at f u)"
      by simp
    have p: "fl_gt (sma50_at f (u - 1)) (sma200_at f (u - 1))"
    proof (cases "u - 1 = t")
      case True
      with cur show ?thesis by simp
    next
      case False
      with 3 range have "t < u - 1 \<and> u - 1 < nrows f"
        by arith
      with after show ?thesis by simp
    qed
    from c p show ?thesis
      by (auto simp: cross_at_def cross_rule_def fl_gt_def fl_ge_def
          dest: fl_le_not_lt fl_lt_asym)
  qed
qed

lemma step_up_sma:
  "sma50_at (after_moving_averages (close_frame step_up_closes)) 199 = Fin 100"
  "sma200_at (after_moving_averages (close_frame step_up_closes)) 199 = Fin 100"
  "sma50_at (after_moving_averages (close_frame step_up_closes)) 200 = Fin 102"
  "sma200_at (after_moving_averages (close_frame step_up_closes)) 200 = Fin (201 / 2)"
  "sma50_at (after_moving_averages (close_frame step_up_closes)) 201 = Fin 104"
  "sma200_at (after_moving_averages (close_frame step_up_closes)) 201 = Fin 101"
  by (simp_all add: sma_at step_up_closes_def sum_list_replicate)

lemma step_up_warmup:
  "v < 199 \<Longrightarrow> sma200_at (after_moving_averages (close_frame step_up_closes)) v = NaN"
  by (simp add: sma_at step_up_closes_def)

theorem golden_cross_single_transition_witness:
  "(50::nat) \<le> 200
   \<and> 200 < nrows (after_moving_averages (close_frame step_up_closes))
   \<and> fl_le (sma50_at (after_moving_averages (close_frame step_up_closes)) (200 - 1))
           (sma200_at (after_moving_averages (close_frame step_up_closes)) (200 - 1))
   \<and> fl_gt (sma50_at (after_moving_averages (close_frame step_up_closes)) 200)
           (sma200_at (after_moving_averages (close_frame step_up_closes)) 200)
   \<and> cross_at (after_moving_averages (close_frame step_up_closes)) 200 = (4, [''Golden Cross''])
   \<and> 201 \<in> set (scan_positions (after_moving_averages (close_frame step_up_closes)))
   \<and> cross_at (after_moving_averages (close_frame step_up_closes)) 201 = (0, [])
   \<and> 150 \<in> set (scan_positions (after_moving_averages (close_frame step_up_closes)))
   \<and> cross_at (after_moving_averages (close_frame step_up_closes)) 150 = (0, [])"
proof -
  let ?f = "after_moving_averages (close_frame step_up_closes)"
  have n: "nrows ?f = 202"
    by (simp add: nrows_after_moving_averages step_up_closes_def)
  have prev: "fl_le (sma50_at ?f (200 - 1)) (sma200_at ?f (200 - 1))"
    by (simp add: step_up_sma)
  have cur: "fl_gt (sma50_at ?f 200) (sma200_at ?f 200)"
    by (simp add: step_up_sma fl_gt_def)
  have before: "\<forall>v<200 - 1. \<not> fl_ge (sma50_at ?f v) (sma200_at ?f v)"
    by (simp add: step_up_warmup fl_ge_def)
  have after: "\<forall>v. 200 < v \<and> v < nrows ?f \<longrightarrow> fl_gt (sma50_at ?f v) (sma200_at ?f v)"
  proof (intro allI impI)
    fix v assume "200 < v \<and> v < nrows ?f"
    with n have "v = 201"
      by simp
    then show "fl_gt (sma50_at ?f v) (sma200_at ?f v)"
      by (simp add: step_up_sma fl_gt_def)
  qed
  have pos: "201 \<in> set (scan_positions ?f)" "150 \<in> set (scan_positions ?f)"
    by (simp_all add: scan_positions_def n)
  from golden_cross_single_transition [of 200 ?f, OF _ _ prev cur before after] n pos prev cur
  show ?thesis
    by simp
qed

section \<open>Risk metrics and the ATR fallback\<close>

lemma empty_setcol [simp]: "empty (setcol c xs f) = (nrows f = 0)"
  by (simp add: empty_def setcol_def)

lemmas indicator_defs = calculate_moving_averages_def calculate_rsi_def calculate_macd_def
  calculate_bollinger_bands_def calculate_stochastic_def calculate_williams_r_def
  calculate_atr_def calculate_cci_def bind_err_def getcol_def
  rolling_mean_def rolling_agg_def rolling_def ewm_mean_def rsi_def rsi_gain_def rsi_loss_def
  macd_def bollinger_bands_def stochastic_def williams_r_def atr_def cci_def

text \<open>With the default configuration and the three price columns present, no step raises.\<close>

lemma default_config_no_error:
  assumes "cols f ''Close'' = Some close" and "cols f ''High'' = Some high"
    and "cols f ''Low'' = Some low"
  shows "fst (calculate_all_indicators default_config f) = None"
  using assms
  by (simp add: calculate_all_indicators_def indicator_defs default_config_def Let_def
      del: ewm_loop.simps)

lemma short_after:
  "nrows (after_all_indicators default_config short_frame) = 3"
  "cols (after_all_indicators default_config short_frame) ''Close'' = Some (map Fin [100, 101, 102])"
  "cols (after_all_indicators default_config short_frame) ''Returns'' =
     Some [NaN, Fin (1 / 100), Fin (1 / 101)]"
  "cols (after_all_indicators default_config short_frame) ''ATR'' = Some [NaN, NaN, NaN]"
     apply (simp_all add: after_all_indicators_def calculate_all_indicators_def indicator_defs
      default_config_def Let_def short_frame_def frame_of_def del: ewm_loop.simps)
  apply (simp add: roll_def prep_values_def window_at_def shift_def fl_sub_def fl_maximum_def
      upt_rec)
  done

lemma not_empty: "nrows f \<noteq> 0 \<Longrightarrow> cols f c = Some xs \<Longrightarrow> \<not> empty f"
  by (auto simp: empty_def)

lemma risk_metrics_levels:
  assumes "\<not> empty f" and "cols f ''Close'' = Some close" and "close \<noteq> []"
    and "cols f ''Returns'' = Some rets" and "cols f ''ATR'' \<noteq> Some []"
    and "atr_value = (case cols f ''ATR'' of
                        Some a \<Rightarrow> last a
                      | None \<Rightarrow> fl_mul (last close) (Fin 0.02))"
  shows "\<exists>m. calculate_risk_metrics cfg f b = Inr (Some m)
             \<and> stop_loss m = fl_sub (last close) (fl_mul (Fin 2) atr_value)
             \<and> take_profit m = fl_add (last close) (fl_mul (Fin 3) atr_value)"
  using assms
  by (auto simp: calculate_risk_metrics_def bind_err_def getcol_def iloc_last_def Let_def
      split: option.splits)

text \<open>
  C3, as stated, fails. On a frame of three bars the indicators are computed without error and
  the ATR column (window 14) ends in NaN. The risk computation then takes that NaN: stop-loss and
  take-profit are NaN, not the levels that a fallback of 2 percent of the final close (102)
  would give (the stop-loss would be 97.92).
\<close>

theorem atr_fallback_counterexample:
  "fst (calculate_all_indicators default_config short_frame) = None
   \<and> map_option last (cols (after_all_indicators default_config short_frame) ''ATR'') = Some NaN
   \<and> map_sum id (map_option stop_loss)
         (calculate_risk_metrics default_config (after_all_indicators default_config short_frame)
            (Fin 100000)) = Inr (Some NaN)
   \<and> map_sum id (map_option take_profit)
         (calculate_risk_metrics default_config (after_all_indicators default_config short_frame)
            (Fin 100000)) = Inr (Some NaN)
   \<and> fl_sub (Fin 102) (fl_mul (Fin 2) (fl_mul (Fin 102) (Fin 0.02))) = Fin 97.92"
proof -
  let ?f = "after_all_indicators default_config short_frame"
  have "fst (calculate_all_indicators default_config short_frame) = None"
    by (rule default_config_no_error [of _ "map Fin [100, 101, 102]"
          "map Fin [101, 102, 103]" "map Fin [99, 100, 101]"])
      (simp_all add: short_frame_def frame_of_def)
  moreover have "\<not> empty ?f"
    by (rule not_empty [OF _ short_after(2)]) (simp add: short_after)
  then obtain m where "calculate_risk_metrics default_config ?f (Fin 100000) = Inr (Some m)"
    and "stop_loss m = fl_sub (last (map Fin [100, 101, 102])) (fl_mul (Fin 2) NaN)"
    and "take_profit m = fl_add (last (map Fin [100, 101, 102])) (fl_mul (Fin 3) NaN)"
    using risk_metrics_levels [of ?f "map Fin [100, 101, 102]" _ NaN default_config "Fin 100000"]
    by (auto simp: short_after)
  ultimately show ?thesis
    by (simp add: short_after fl_sub_def)
qed

text \<open>
  C3, amended. On a non-empty frame with its Close and Returns columns, the risk computation
  uses the final cell of the ATR column whenever the frame has that column, also when the cell
  is undefined, in which case stop-loss and take-profit are undefined too. It substitutes 2
  percent of the final close price for the ATR only when the frame has no ATR column.
\<close>

theorem atr_fallback_only_without_column:
  assumes "\<not> empty f" and "cols f ''Close'' = Some close" and "close \<noteq> []"
    and "cols f ''Returns'' = Some rets"
  shows "(\<forall>a. cols f ''ATR'' = Some a \<and> a \<noteq> [] \<longrightarrow>
            (\<exists>m. calculate_risk_metrics cfg f b = Inr (Some m)
               \<and> stop_loss m = fl_sub (last close) (fl_mul (Fin 2) (last a))
               \<and> take_profit m = fl_add (last close) (fl_mul (Fin 3) (last a))
               \<and> (is_nan (last a) \<longrightarrow> is_nan (stop_loss m) \<and> is_nan (take_profit m))))
         \<and> (cols f ''ATR'' = None \<longrightarrow>
            (\<exists>m. calculate_risk_metrics cfg f b = Inr (Some m)
               \<and> stop_loss m =
                   fl_sub (last close) (fl_mul (Fin 2) (fl_mul (last close) (Fin 0.02)))
               \<and> take_profit m =
                   fl_add (last close) (fl_mul (Fin 3) (fl_mul (last close) (Fin 0.02)))))"
proof (intro conjI allI impI)
  fix a assume a: "cols f ''ATR'' = Some a \<and> a \<noteq> []"
  with risk_metrics_levels [OF assms, of "last a" cfg b]
  obtain m where m: "calculate_risk_metrics cfg f b = Inr (Some m)"
    "stop_loss m = fl_sub (last close) (fl_mul (Fin 2) (last a))"
    "take_profit m = fl_add (last close) (fl_mul (Fin 3) (last a))"
    by auto
  have "is_nan (last a) \<longrightarrow> is_nan (stop_loss m) \<and> is_nan (take_profit m)"
    by (auto simp: m fl_sub_def intro: fl_arith_nan)
  with m show "\<exists>m. calculate_risk_metrics cfg f b = Inr (Some m)
               \<and> stop_loss m = fl_sub (last close) (fl_mul (Fin 2) (last a))
               \<and> take_profit m = fl_add (last close) (fl_mul (Fin 3) (last a))
               \<and> (is_nan (last a) \<longrightarrow> is_nan (stop_loss m) \<and> is_nan (take_profit m))"
    by blast
next
  assume "cols f ''ATR'' = None"
  with risk_metrics_levels [OF assms, of "fl_mul (last close) (Fin 0.02)" cfg b]
  show "\<exists>m. calculate_risk_metrics cfg f b = Inr (Some m)
               \<and> stop_loss m =
                   fl_sub (last close) (fl_mul (Fin 2) (fl_mul (last close) (Fin 0.02)))
               \<and> take_profit m =
                   fl_add (last close) (fl_mul (Fin 3) (fl_mul (last close) (Fin 0.02)))"
    by auto
qed

theorem atr_fallback_only_without_column_witness:
  "\<not> empty short_frame
   \<and> cols short_frame ''ATR'' = None
   \<and> map_sum id (map_option stop_loss)
         (calculate_risk_metrics default_config short_frame (Fin 100000)) = Inr (Some (Fin 97.92))
   \<and> \<not> empty (after_all_indicators default_config short_frame)
   \<and> cols (after_all_indicators default_config short_frame) ''ATR'' = Some [NaN, NaN, NaN]
   \<and> map_sum id (map_option stop_loss)
         (calculate_risk_metrics default_config (after_all_indicators default_config short_frame)
            (Fin 100000)) = Inr (Some NaN)"
proof -
  let ?f = "after_all_indicators default_config short_frame"
  let ?c = "map Fin [100, 101, 102]"
  let ?r = "[NaN, Fin (1 / 100), Fin (1 / 101)]"
  have e1: "\<not> empty short_frame"
    by (simp add: empty_def short_frame_def frame_of_def)
  have c1: "cols short_frame ''Close'' = Some ?c" "cols short_frame ''Returns'' = Some ?r"
    "cols short_frame ''ATR'' = None"
    by (simp_all add: short_frame_def frame_of_def)
  have e2: "\<not> empty ?f"
    by (rule not_empty [OF _ short_after(2)]) (simp add: short_after)
  have n: "?c \<noteq> []"
    by simp
  from atr_fallback_only_without_column [OF e1 c1(1) n c1(2), of default_config "Fin 100000"] c1(3)
  have w1: "map_sum id (map_option stop_loss)
         (calculate_risk_metrics default_config short_frame (Fin 100000)) = Inr (Some (Fin 97.92))"
    by (auto simp: fl_sub_def)
  from atr_fallback_only_without_column [OF e2 short_after(2) n short_after(3),
      of default_config "Fin 100000"] short_after(4)
  have w2: "map_sum id (map_option stop_loss)
         (calculate_risk_metrics default_config ?f (Fin 100000)) = Inr (Some NaN)"
    by (auto simp: fl_sub_def)
  from e1 c1(3) w1 e2 short_after(4) w2 show ?thesis
    by simp
qed

section \<open>Configuration values are not validated\<close>

lemma rsi_window_rejected:
  assumes "cols f ''Close'' = Some close" and "rsi_window cfg \<le> 0"
  shows "calculate_all_indicators cfg f = (Some ValueError, after_moving_averages f)"
    and "cols (after_moving_averages f) ''SMA_10'' = Some (roll mean 10 10 close)"
  using assms
  by (simp_all add: calculate_all_indicators_def after_moving_averages_def
      calculate_moving_averages_def calculate_rsi_def bind_err_def getcol_def rolling_mean_def
      rolling_def ewm_mean_def rsi_def rsi_gain_def Let_def)

lemma all_indicators_error:
  assumes "cols f ''Close'' = Some close" and "cols f ''High'' = Some high"
    and "cols f ''Low'' = Some low"
  shows "fst (calculate_all_indicators cfg f) =
           (if rsi_window cfg \<le> 0 \<or> macd_fast cfg \<le> 0 \<or> macd_slow cfg \<le> 0
               \<or> macd_signal cfg \<le> 0 \<or> bb_window cfg < 0 \<or> stoch_k cfg < 0
               \<or> stoch_d cfg < 0
            then Some ValueError else None)"
  using assms
  by (simp add: calculate_all_indicators_def indicator_defs Let_def del: ewm_loop.simps)

lemma moving_averages_first:
  assumes "cols f ''Close'' = Some close" and "cols f ''High'' = Some high"
    and "cols f ''Low'' = Some low"
  shows "cols (after_all_indicators cfg f) ''SMA_10'' = Some (roll mean 10 10 close)"
  using assms
  by (auto simp: after_all_indicators_def calculate_all_indicators_def indicator_defs Let_def
      simp del: ewm_loop.simps)

lemma macd_span_rejected:
  assumes "cols f ''Close'' = Some close" and "0 < rsi_window cfg"
    and "macd_fast cfg \<le> 0 \<or> macd_slow cfg \<le> 0 \<or> macd_signal cfg \<le> 0"
  shows "fst (run_steps [calculate_moving_averages, calculate_rsi cfg] f) = None"
    and "calculate_all_indicators cfg f =
           (Some ValueError, snd (run_steps [calculate_moving_averages, calculate_rsi cfg] f))"
  using assms
  by (auto simp: calculate_all_indicators_def indicator_defs Let_def simp del: ewm_loop.simps)

lemma bb_window_rejected:
  assumes "cols f ''Close'' = Some close" and "0 < rsi_window cfg"
    and "0 < macd_fast cfg" and "0 < macd_slow cfg" and "0 < macd_signal cfg"
    and "bb_window cfg < 0"
  shows "fst (run_steps [calculate_moving_averages, calculate_rsi cfg, calculate_macd cfg] f)
           = None"
    and "calculate_all_indicators cfg f =
           (Some ValueError,
            snd (run_steps [calculate_moving_averages, calculate_rsi cfg, calculate_macd cfg] f))"
  using assms
  by (auto simp: calculate_all_indicators_def indicator_defs Let_def simp del: ewm_loop.simps)

lemma stoch_window_rejected:
  assumes "cols f ''Close'' = Some close" and "cols f ''High'' = Some high"
    and "cols f ''Low'' = Some low" and "0 < rsi_window cfg"
    and "0 < macd_fast cfg" and "0 < macd_slow cfg" and "0 < macd_signal cfg"
    and "0 \<le> bb_window cfg" and "stoch_k cfg < 0 \<or> stoch_d cfg < 0"
  shows "fst (run_steps [calculate_moving_averages, calculate_rsi cfg, calculate_macd cfg,
                         calculate_bollinger_bands cfg] f) = None"
    and "calculate_all_indicators cfg f =
           (Some ValueError,
            snd (run_steps [calculate_moving_averages, calculate_rsi cfg, calculate_macd cfg,
                            calculate_bollinger_bands cfg] f))"
  using assms
  by (auto simp: calculate_all_indicators_def indicator_defs Let_def simp del: ewm_loop.simps)

lemma short_price_columns:
  "cols short_frame ''Close'' = Some (map Fin [100, 101, 102])"
  "cols short_frame ''High'' = Some (map Fin [101, 102, 103])"
  "cols short_frame ''Low'' = Some (map Fin [99, 100, 101])"
  by (simp_all add: short_frame_def frame_of_def)

text \<open>
  C7, as stated, fails: nothing checks the configuration before the indicators are computed.
  With \<open>rsi_window = 0\<close> the run does end in an error, but the error is raised inside the RSI
  step, and by then the frame, which had no SMA_10 column, holds the computed one. With the
  Bollinger and Stochastic windows set to 0 the run ends with no error at all.
\<close>

theorem config_validation_counterexample:
  "rsi_window zero_rsi_config \<le> 0
   \<and> fst (calculate_all_indicators zero_rsi_config short_frame) = Some ValueError
   \<and> cols short_frame ''SMA_10'' = None
   \<and> cols (after_all_indicators zero_rsi_config short_frame) ''SMA_10'' = Some [NaN, NaN, NaN]
   \<and> bb_window zero_windows_config \<le> 0
   \<and> stoch_k zero_windows_config \<le> 0
   \<and> stoch_d zero_windows_config \<le> 0
   \<and> fst (calculate_all_indicators zero_windows_config short_frame) = None"
proof -
  have z: "rsi_window zero_rsi_config \<le> 0"
    by (simp add: zero_rsi_config_def)
  have c: "cols short_frame ''Close'' = Some (map Fin [100, 101, 102])"
    by (simp add: short_frame_def frame_of_def)
  have "roll mean 10 10 (map Fin [100, 101, 102]) = [NaN, NaN, NaN]"
    by (simp add: roll_def prep_values_def window_at_def upt_rec)
  with rsi_window_rejected [OF c z] z
  have first: "fst (calculate_all_indicators zero_rsi_config short_frame) = Some ValueError"
    "cols short_frame ''SMA_10'' = None"
    "cols (after_all_indicators zero_rsi_config short_frame) ''SMA_10'' = Some [NaN, NaN, NaN]"
    by (simp_all add: after_all_indicators_def short_frame_def frame_of_def)
  have w: "bb_window zero_windows_config = 0" "stoch_k zero_windows_config = 0"
    "stoch_d zero_windows_config = 0" "rsi_window zero_windows_config = 14"
    "macd_fast zero_windows_config = 12" "macd_slow zero_windows_config = 26"
    "macd_signal zero_windows_config = 9"
    by (simp_all add: zero_windows_config_def default_config_def)
  have "fst (calculate_all_indicators zero_windows_config short_frame) = None"
    by (simp add: all_indicators_error [OF short_price_columns] w)
  with z first w show ?thesis
    by simp
qed

text \<open>
  C7, amended. Nothing validates the configuration before computing. The constructor installs
  positive window and period values, and \<open>calculate_all_indicators\<close> computes and stores the
  moving-average columns first, whatever the configuration holds. A non-positive value is fatal
  only where the library call that uses it rejects it, inside the step of its indicator:
  \<open>rsi_window \<le> 0\<close> raises ValueError in the RSI step; \<open>macd_fast\<close>, \<open>macd_slow\<close> or
  \<open>macd_signal \<le> 0\<close> raises ValueError in the MACD step, after the RSI column is stored; a
  negative \<open>bb_window\<close> raises ValueError in the Bollinger step and a negative \<open>stoch_k\<close>
  or \<open>stoch_d\<close> in the Stochastic step. A \<open>bb_window\<close>, \<open>stoch_k\<close> or \<open>stoch_d\<close> equal
  to 0 is not rejected at all: the run completes with no error.
\<close>

theorem config_values_not_validated:
  assumes "cols f ''Close'' = Some close" and "cols f ''High'' = Some high"
    and "cols f ''Low'' = Some low"
  shows "(0 < rsi_window default_config \<and> 0 < macd_fast default_config
            \<and> 0 < macd_slow default_config \<and> 0 < macd_signal default_config
            \<and> 0 < bb_window default_config \<and> 0 < stoch_k default_config
            \<and> 0 < stoch_d default_config)
         \<and> cols (after_all_indicators cfg f) ''SMA_10'' = Some (roll mean 10 10 close)
         \<and> (rsi_window cfg \<le> 0 \<longrightarrow>
               calculate_all_indicators cfg f = (Some ValueError, after_moving_averages f))
         \<and> (windows_fit_int64 cfg \<and> 0 < rsi_window cfg
               \<and> (macd_fast cfg \<le> 0 \<or> macd_slow cfg \<le> 0 \<or> macd_signal cfg \<le> 0) \<longrightarrow>
               fst (run_steps [calculate_moving_averages, calculate_rsi cfg] f) = None
               \<and> calculate_all_indicators cfg f =
                   (Some ValueError,
                    snd (run_steps [calculate_moving_averages, calculate_rsi cfg] f)))
         \<and> (windows_fit_int64 cfg \<and> 0 < rsi_window cfg \<and> 0 < macd_fast cfg
               \<and> 0 < macd_slow cfg \<and> 0 < macd_signal cfg \<and> bb_window cfg < 0 \<longrightarrow>
               fst (run_steps [calculate_moving_averages, calculate_rsi cfg,
                               calculate_macd cfg] f) = None
               \<and> calculate_all_indicators cfg f =
                   (Some ValueError,
                    snd (run_steps [calculate_moving_averages, calculate_rsi cfg,
                                    calculate_macd cfg] f)))
         \<and> (windows_fit_int64 cfg \<and> 0 < rsi_window cfg \<and> 0 < macd_fast cfg
               \<and> 0 < macd_slow cfg \<and> 0 < macd_signal cfg \<and> 0 \<le> bb_window cfg
               \<and> (stoch_k cfg < 0 \<or> stoch_d cfg < 0) \<longrightarrow>
               fst (run_steps [calculate_moving_averages, calculate_rsi cfg, calculate_macd cfg,
                               calculate_bollinger_bands cfg] f) = None
               \<and> calculate_all_indicators cfg f =
                   (Some ValueError,
                    snd (run_steps [calculate_moving_averages, calculate_rsi cfg,
                                    calculate_macd cfg, calculate_bollinger_bands cfg] f)))
         \<and> (windows_fit_int64 cfg \<and> 0 < rsi_window cfg \<and> 0 < macd_fast cfg
               \<and> 0 < macd_slow cfg \<and> 0 < macd_signal cfg \<and> 0 \<le> bb_window cfg
               \<and> 0 \<le> stoch_k cfg \<and> 0 \<le> stoch_d cfg \<longrightarrow>
               fst (calculate_all_indicators cfg f) = None)"
proof (intro conjI impI)
  show "cols (after_all_indicators cfg f) ''SMA_10'' = Some (roll mean 10 10 close)"
    by (rule moving_averages_first [OF assms])
next
  assume "rsi_window cfg \<le> 0"
  then show "calculate_all_indicators cfg f = (Some ValueError, after_moving_averages f)"
    by (rule rsi_window_rejected(1) [OF assms(1)])
next
  assume a: "windows_fit_int64 cfg \<and> 0 < rsi_window cfg
      \<and> (macd_fast cfg \<le> 0 \<or> macd_slow cfg \<le> 0 \<or> macd_signal cfg \<le> 0)"
  then show "fst (run_steps [calculate_moving_averages, calculate_rsi cfg] f) = None"
    using macd_span_rejected(1) [OF assms(1)] by blast
  from a show "calculate_all_indicators cfg f =
      (Some ValueError, snd (run_steps [calculate_moving_averages, calculate_rsi cfg] f))"
    using macd_span_rejected(2) [OF assms(1)] by blast
next
  assume a: "windows_fit_int64 cfg \<and> 0 < rsi_window cfg \<and> 0 < macd_fast cfg
      \<and> 0 < macd_slow cfg \<and> 0 < macd_signal cfg \<and> bb_window cfg < 0"
  then show "fst (run_steps [calculate_moving_averages, calculate_rsi cfg,
      calculate_macd cfg] f) = None"
    using bb_window_rejected(1) [OF assms(1)] by blast
  from a show "calculate_all_indicators cfg f =
      (Some ValueError,
       snd (run_steps [calculate_moving_averages, calculate_rsi cfg, calculate_macd cfg] f))"
    using bb_window_rejected(2) [OF assms(1)] by blast
next
  assume a: "windows_fit_int64 cfg \<and> 0 < rsi_window cfg \<and> 0 < macd_fast cfg
      \<and> 0 < macd_slow cfg \<and> 0 < macd_signal cfg \<and> 0 \<le> bb_window cfg
      \<and> (stoch_k cfg < 0 \<or> stoch_d cfg < 0)"
  then show "fst (run_steps [calculate_moving_averages, calculate_rsi cfg, calculate_macd cfg,
      calculate_bollinger_bands cfg] f) = None"
    using stoch_window_rejected(1) [OF assms] by blast
  from a show "calculate_all_indicators cfg f =
      (Some ValueError,
       snd (run_steps [calculate_moving_averages, calculate_rsi cfg, calculate_macd cfg,
                       calculate_bollinger_bands cfg] f))"
    using stoch_window_rejected(2) [OF assms] by blast
next
  assume "windows_fit_int64 cfg \<and> 0 < rsi_window cfg \<and> 0 < macd_fast cfg
      \<and> 0 < macd_slow cfg \<and> 0 < macd_signal cfg \<and> 0 \<le> bb_window cfg
      \<and> 0 \<le> stoch_k cfg \<and> 0 \<le> stoch_d cfg"
  then show "fst (calculate_all_indicators cfg f) = None"
    by (simp add: all_indicators_error [OF assms])
qed (simp_all add: default_config_def)

theorem config_values_not_validated_witness:
  "calculate_all_indicators zero_rsi_config short_frame =
     (Some ValueError, after_moving_averages short_frame)
   \<and> cols (after_all_indicators zero_rsi_config short_frame) ''SMA_10'' =
       Some (roll mean 10 10 (map Fin [100, 101, 102]))
   \<and> fst (calculate_all_indicators zero_macd_config short_frame) = Some ValueError
   \<and> fst (calculate_all_indicators negative_bb_config short_frame) = Some ValueError
   \<and> fst (calculate_all_indicators negative_stoch_config short_frame) = Some ValueError
   \<and> fst (calculate_all_indicators zero_windows_config short_frame) = None"
proof -
  note th = config_values_not_validated [OF short_price_columns]
  have "calculate_all_indicators zero_rsi_config short_frame =
      (Some ValueError, after_moving_averages short_frame)"
    "cols (after_all_indicators zero_rsi_config short_frame) ''SMA_10'' =
       Some (roll mean 10 10 (map Fin [100, 101, 102]))"
    using th [of zero_rsi_config] by (simp_all add: zero_rsi_config_def)
  moreover have "fst (calculate_all_indicators zero_macd_config short_frame) = Some ValueError"
    using th [of zero_macd_config]
    by (simp add: zero_macd_config_def windows_fit_int64_def default_config_def)
  moreover have "fst (calculate_all_indicators negative_bb_config short_frame) = Some ValueError"
    using th [of negative_bb_config]
    by (simp add: negative_bb_config_def windows_fit_int64_def default_config_def)
  moreover have
    "fst (calculate_all_indicators negative_stoch_config short_frame) = Some ValueError"
    using th [of negative_stoch_config]
    by (simp add: negative_stoch_config_def windows_fit_int64_def default_config_def)
  moreover have "fst (calculate_all_indicators zero_windows_config short_frame) = None"
    using th [of zero_windows_config]
    by (simp add: zero_windows_config_def windows_fit_int64_def default_config_def)
  ultimately show ?thesis
    by simp
qed

end
